theory Spec2Isabelle
  imports Complex_Main "HOL-Library.Word"
begin

unbundle bit_operations_syntax

section \<open>renderer.h: a shallow embedding\<close>

text \<open>
  The development follows \<^verbatim>\<open>renderer.h\<close>: the style token compiler
  (\<^verbatim>\<open>ParseComponentOptions\<close>), the scroll helpers, the render command
  interpreter (\<^verbatim>\<open>Clay_Raylib_Render\<close>) and the arena allocator.

  Conventions of the embedding.
  \<^item> A C \<^verbatim>\<open>float\<close> or \<^verbatim>\<open>double\<close> is a \<^typ>\<open>real\<close>: arithmetic is exact, and
    rounding, NaN and the infinities (hence division by zero) are outside the model.
    \<^verbatim>\<open>fminf\<close>, \<^verbatim>\<open>fmaxf\<close> are \<^const>\<open>min\<close>, \<^const>\<open>max\<close>.
  \<^item> \<^verbatim>\<open>uint16_t\<close> is \<^typ>\<open>16 word\<close>, \<^verbatim>\<open>uint8_t\<close> is \<^typ>\<open>8 word\<close>, \<^verbatim>\<open>size_t\<close> and
    \<^verbatim>\<open>intptr_t\<close> are \<^typ>\<open>64 word\<close> (an LP64 platform).
  \<^item> A struct is a record. Record fields are global names in Isabelle, so a field
    \<^verbatim>\<open>f\<close> that would clash with another struct's field, or that is a single letter,
    carries a prefix naming its struct (\<^verbatim>\<open>options.p\<close> is \<open>opt_p\<close>,
    \<^verbatim>\<open>boundingBox.x\<close> is \<open>bb_x\<close>).
  \<^item> A failed \<^verbatim>\<open>assert\<close>, and every access the C standard leaves undefined
    (a write past a stack buffer, a read past an array, a null dereference), is a
    value of type \<open>error\<close>; a fallible function returns \<open>error + 'a\<close>.
  \<^item> The types and macros of \<^verbatim>\<open>clay.h\<close> and \<^verbatim>\<open>raylib.h\<close> are written out as these
    headers declare them; their functions (\<^verbatim>\<open>Clay__HashString\<close>, \<^verbatim>\<open>atof\<close>, the
    matrix code behind the screen-to-world ray) are parameters of the functions
    that call them.
\<close>

subsection \<open>Errors\<close>

datatype error =
    AssertionFailed string
  | OutOfBounds
  | ConversionOutOfRange
  | NullDereference

subsection \<open>C strings and character arrays\<close>

definition NUL :: char where
  "NUL = CHR 0x00"

text \<open>
  A field \<^verbatim>\<open>char f[n]\<close> is given by the string it is initialised with; as in a C
  initialiser, the bytes the string does not cover are zero and bytes beyond \<open>n\<close> do
  not exist. \<open>char_array n s\<close> is the content of the array, \<open>n\<close> bytes.
\<close>

definition char_array :: "nat \<Rightarrow> string \<Rightarrow> string" where
  "char_array n s = take n s @ replicate (n - length s) NUL"

text \<open>
  The C string held in an array: the bytes before the first NUL. An array without a
  NUL has no terminator, and a \<^verbatim>\<open>strrchr\<close> on it reads past its end.
\<close>

definition c_string :: "string \<Rightarrow> string option" where
  "c_string arr = (if NUL \<in> set arr then Some (takeWhile (\<lambda>c. c \<noteq> NUL) arr) else None)"

definition strnlen :: "string \<Rightarrow> nat \<Rightarrow> nat" where
  "strnlen arr n = length (takeWhile (\<lambda>c. c \<noteq> NUL) (take n arr))"

text \<open>\<^verbatim>\<open>strrchr\<close>: the offset of the last occurrence, \<open>None\<close> for the null pointer.\<close>

definition strrchr :: "string \<Rightarrow> char \<Rightarrow> nat option" where
  "strrchr s c =
     (if c \<in> set s then Some (length s - 1 - length (takeWhile (\<lambda>d. d \<noteq> c) (rev s)))
      else None)"

subsection \<open>The types of clay.h that the compiler fills in\<close>

record Clay_Color =
  color_r :: real
  color_g :: real
  color_b :: real
  color_a :: real

record Clay_ElementId =
  eid_id :: "32 word"
  eid_offset :: "32 word"
  eid_baseId :: "32 word"
  eid_stringId :: string

datatype Clay_LayoutDirection = CLAY_LEFT_TO_RIGHT | CLAY_TOP_TO_BOTTOM

datatype Clay_LayoutAlignmentX = CLAY_ALIGN_X_LEFT | CLAY_ALIGN_X_RIGHT | CLAY_ALIGN_X_CENTER

datatype Clay_LayoutAlignmentY = CLAY_ALIGN_Y_TOP | CLAY_ALIGN_Y_BOTTOM | CLAY_ALIGN_Y_CENTER

record Clay_ChildAlignment =
  align_x :: Clay_LayoutAlignmentX
  align_y :: Clay_LayoutAlignmentY

datatype Clay__SizingType =
    CLAY__SIZING_TYPE_FIT
  | CLAY__SIZING_TYPE_GROW
  | CLAY__SIZING_TYPE_PERCENT
  | CLAY__SIZING_TYPE_FIXED

text \<open>The union \<^verbatim>\<open>{ Clay_SizingMinMax minMax; float percent; }\<close> of a sizing axis.\<close>

datatype Clay_SizingSize = MinMax real real | Percent real

record Clay_SizingAxis =
  axis_size :: Clay_SizingSize
  axis_type :: Clay__SizingType

definition CLAY_SIZING_FIT :: "real \<Rightarrow> Clay_SizingAxis" where
  "CLAY_SIZING_FIT v = \<lparr>axis_size = MinMax v 0, axis_type = CLAY__SIZING_TYPE_FIT\<rparr>"

definition CLAY_SIZING_GROW :: "real \<Rightarrow> Clay_SizingAxis" where
  "CLAY_SIZING_GROW v = \<lparr>axis_size = MinMax v 0, axis_type = CLAY__SIZING_TYPE_GROW\<rparr>"

definition CLAY_SIZING_FIXED :: "real \<Rightarrow> Clay_SizingAxis" where
  "CLAY_SIZING_FIXED v = \<lparr>axis_size = MinMax v v, axis_type = CLAY__SIZING_TYPE_FIXED\<rparr>"

definition CLAY_SIZING_PERCENT :: "real \<Rightarrow> Clay_SizingAxis" where
  "CLAY_SIZING_PERCENT v = \<lparr>axis_size = Percent v, axis_type = CLAY__SIZING_TYPE_PERCENT\<rparr>"

record Clay_Sizing =
  sizing_width :: Clay_SizingAxis
  sizing_height :: Clay_SizingAxis

record Clay_Padding =
  padding_left :: "16 word"
  padding_right :: "16 word"
  padding_top :: "16 word"
  padding_bottom :: "16 word"

record Clay_LayoutConfig =
  sizing :: Clay_Sizing
  padding :: Clay_Padding
  childGap :: "16 word"
  childAlignment :: Clay_ChildAlignment
  layoutDirection :: Clay_LayoutDirection

record Clay_CornerRadius =
  topLeft :: real
  topRight :: real
  bottomLeft :: real
  bottomRight :: real

definition CLAY_CORNER_RADIUS :: "real \<Rightarrow> Clay_CornerRadius" where
  "CLAY_CORNER_RADIUS radius =
     \<lparr>topLeft = radius, topRight = radius, bottomLeft = radius, bottomRight = radius\<rparr>"

record Clay_ScrollElementConfig =
  horizontal :: bool
  vertical :: bool

record Clay_BorderWidth =
  bw_left :: "16 word"
  bw_right :: "16 word"
  bw_top :: "16 word"
  bw_bottom :: "16 word"
  bw_betweenChildren :: "16 word"

record Clay_BorderElementConfig =
  bec_color :: Clay_Color
  bec_width :: Clay_BorderWidth

text \<open>
  \<^verbatim>\<open>Clay_ElementDeclaration\<close>. The fields that \<^verbatim>\<open>ParseComponentOptions\<close> never
  touches (image, floating, custom, userData) are the extension part of the record.
\<close>

record Clay_ElementDeclaration =
  decl_id :: Clay_ElementId
  layout :: Clay_LayoutConfig
  backgroundColor :: Clay_Color
  cornerRadius :: Clay_CornerRadius
  scroll :: Clay_ScrollElementConfig
  border :: Clay_BorderElementConfig

subsection \<open>The style request\<close>

record Border =
  border_color :: Clay_Color
  border_width :: string

record ComponentOptions =
  opt_id :: "string option"
  opt_bg :: Clay_Color
  opt_gap :: "16 word"
  opt_reverse :: bool
  opt_scroll :: string
  opt_p :: "16 word"
  opt_pb :: "16 word"
  opt_pt :: "16 word"
  opt_pl :: "16 word"
  opt_pr :: "16 word"
  opt_py :: "16 word"
  opt_px :: "16 word"
  opt_align :: string
  opt_borderRadius :: string
  opt_border :: Border
  opt_w :: "string option"
  opt_h :: "string option"

definition NONE :: Clay_Color where
  "NONE = \<lparr>color_r = 0, color_g = 0, color_b = 0, color_a = 0\<rparr>"

text \<open>The request \<^verbatim>\<open>(ComponentOptions){0}\<close>: every field unset.\<close>

definition emptyOptions :: ComponentOptions where
  "emptyOptions =
     \<lparr>opt_id = None, opt_bg = NONE, opt_gap = 0, opt_reverse = False, opt_scroll = [],
      opt_p = 0, opt_pb = 0, opt_pt = 0, opt_pl = 0, opt_pr = 0, opt_py = 0, opt_px = 0,
      opt_align = [], opt_borderRadius = [],
      opt_border = \<lparr>border_color = NONE, border_width = []\<rparr>,
      opt_w = None, opt_h = None\<rparr>"

subsection \<open>ParseComponentOptions\<close>

text \<open>The block \<^verbatim>\<open>// Misc\<close>.\<close>

definition parse_misc ::
  "(string \<Rightarrow> 32 word \<Rightarrow> 32 word \<Rightarrow> Clay_ElementId) \<Rightarrow> ComponentOptions \<Rightarrow>
   'a Clay_ElementDeclaration_scheme \<Rightarrow> 'a Clay_ElementDeclaration_scheme" where
  "parse_misc Clay__HashString options result =
     (let result = (case opt_id options of
                      Some name \<Rightarrow> result\<lparr>decl_id := Clay__HashString name 0 0\<rparr>
                    | None \<Rightarrow> result);
          result = (if color_r (opt_bg options) \<noteq> 0 \<or> color_g (opt_bg options) \<noteq> 0
                       \<or> color_b (opt_bg options) \<noteq> 0 \<or> color_a (opt_bg options) \<noteq> 0
                    then result\<lparr>backgroundColor := opt_bg options\<rparr> else result);
          result = (if opt_gap options \<noteq> 0
                    then result\<lparr>layout := (layout result)\<lparr>childGap := opt_gap options\<rparr>\<rparr>
                    else result)
      in result)"

text \<open>The block \<^verbatim>\<open>// Padding parse\<close>, on the padding of the result.\<close>

definition parse_padding :: "ComponentOptions \<Rightarrow> Clay_Padding \<Rightarrow> Clay_Padding" where
  "parse_padding options pad =
     (let pad = (if opt_p options \<noteq> 0
                 then pad\<lparr>padding_top := opt_p options, padding_bottom := opt_p options,
                          padding_left := opt_p options, padding_right := opt_p options\<rparr>
                 else pad);
          pad = (if opt_px options \<noteq> 0
                 then pad\<lparr>padding_left := opt_px options, padding_right := opt_px options\<rparr>
                 else pad);
          pad = (if opt_py options \<noteq> 0
                 then pad\<lparr>padding_top := opt_py options, padding_bottom := opt_py options\<rparr>
                 else pad);
          pad = (if opt_pt options \<noteq> 0 then pad\<lparr>padding_top := opt_pt options\<rparr> else pad);
          pad = (if opt_pb options \<noteq> 0 then pad\<lparr>padding_bottom := opt_pb options\<rparr> else pad);
          pad = (if opt_pl options \<noteq> 0 then pad\<lparr>padding_left := opt_pl options\<rparr> else pad);
          pad = (if opt_pr options \<noteq> 0 then pad\<lparr>padding_right := opt_pr options\<rparr> else pad)
      in pad)"

text \<open>The block \<^verbatim>\<open>// Align parse\<close>, on the child alignment of the result.\<close>

definition parse_align :: "ComponentOptions \<Rightarrow> Clay_ChildAlignment \<Rightarrow> Clay_ChildAlignment" where
  "parse_align options al =
     (let firstChar = char_array 2 (opt_align options) ! 0;
          secondChar = char_array 2 (opt_align options) ! 1;
          al = (if firstChar = CHR ''t'' then al\<lparr>align_y := CLAY_ALIGN_Y_TOP\<rparr> else al);
          al = (if firstChar = CHR ''c'' then al\<lparr>align_y := CLAY_ALIGN_Y_CENTER\<rparr> else al);
          al = (if firstChar = CHR ''b'' then al\<lparr>align_y := CLAY_ALIGN_Y_BOTTOM\<rparr> else al);
          al = (if secondChar = CHR ''l'' then al\<lparr>align_x := CLAY_ALIGN_X_LEFT\<rparr> else al);
          al = (if secondChar = CHR ''c'' then al\<lparr>align_x := CLAY_ALIGN_X_CENTER\<rparr> else al);
          al = (if secondChar = CHR ''r'' then al\<lparr>align_x := CLAY_ALIGN_X_RIGHT\<rparr> else al)
      in al)"

text \<open>The block \<^verbatim>\<open>// Scroll parse\<close>.\<close>

definition parse_scroll ::
  "ComponentOptions \<Rightarrow> Clay_ScrollElementConfig \<Rightarrow> Clay_ScrollElementConfig" where
  "parse_scroll options sc =
     (let firstChar = char_array 1 (opt_scroll options) ! 0;
          sc = (if firstChar = CHR ''v'' then \<lparr>horizontal = False, vertical = True\<rparr> else sc);
          sc = (if firstChar = CHR ''h'' then \<lparr>horizontal = True, vertical = False\<rparr> else sc);
          sc = (if firstChar = CHR ''b'' then \<lparr>horizontal = True, vertical = True\<rparr> else sc)
      in sc)"

text \<open>
  The block \<^verbatim>\<open>// Border radius parse\<close>, on the corner radius of the result. The
  direction goes to \<^verbatim>\<open>char directionStr[3]\<close> and the size to \<^verbatim>\<open>char sizeStr[4]\<close>,
  each followed by its terminator: a direction of more than two characters or a size
  of more than three writes past the buffer.
\<close>

definition parse_borderRadius ::
  "ComponentOptions \<Rightarrow> Clay_CornerRadius \<Rightarrow> error + Clay_CornerRadius" where
  "parse_borderRadius options cr =
     (let arr = char_array 6 (opt_borderRadius options) in
      if arr ! 0 = NUL then Inr cr
      else
        let stringLen = strnlen arr 6 in
        case c_string arr of
          None \<Rightarrow> Inl OutOfBounds
        | Some s \<Rightarrow>
           (case strrchr s (CHR ''-'') of
              None \<Rightarrow> Inl (AssertionFailed ''Border radius format is {direction}-{size} ex: t-sm'')
            | Some directionLen \<Rightarrow>
               (let sizeLen = stringLen - (directionLen + 1) in
                if 2 < directionLen \<or> 3 < sizeLen then Inl OutOfBounds
                else
                  let directionStr = take directionLen s;
                      sizeStr = take sizeLen (drop (directionLen + 1) s);
                      size = 0;
                      size = (if sizeStr = ''xs'' then 2 else size);
                      size = (if sizeStr = ''sm'' then 4 else size);
                      size = (if sizeStr = ''md'' then 6 else size);
                      size = (if sizeStr = ''lg'' then 8 else size);
                      size = (if sizeStr = ''xl'' then 12 else size);
                      size = (if sizeStr = ''2xl'' then 16 else size);
                      size = (if sizeStr = ''3xl'' then 24 else size);
                      cr = (if directionStr = ''t''
                            then \<lparr>topLeft = size, topRight = size, bottomLeft = 0, bottomRight = 0\<rparr>
                            else cr);
                      cr = (if directionStr = ''b''
                            then \<lparr>topLeft = 0, topRight = 0, bottomLeft = size, bottomRight = size\<rparr>
                            else cr);
                      cr = (if directionStr = ''l''
                            then \<lparr>topLeft = size, topRight = 0, bottomLeft = size, bottomRight = 0\<rparr>
                            else cr);
                      cr = (if directionStr = ''r''
                            then \<lparr>topLeft = 0, topRight = size, bottomLeft = 0, bottomRight = size\<rparr>
                            else cr);
                      cr = (if directionStr = ''tl''
                            then \<lparr>topLeft = size, topRight = 0, bottomLeft = 0, bottomRight = 0\<rparr>
                            else cr);
                      cr = (if directionStr = ''tr''
                            then \<lparr>topLeft = 0, topRight = size, bottomLeft = 0, bottomRight = 0\<rparr>
                            else cr);
                      cr = (if directionStr = ''bl''
                            then \<lparr>topLeft = 0, topRight = 0, bottomLeft = size, bottomRight = 0\<rparr>
                            else cr);
                      cr = (if directionStr = ''br''
                            then \<lparr>topLeft = 0, topRight = 0, bottomLeft = 0, bottomRight = size\<rparr>
                            else cr);
                      cr = (if directionStr = ''a'' then CLAY_CORNER_RADIUS size else cr)
                  in Inr cr)))"

text \<open>
  The conversion of a \<^verbatim>\<open>double\<close> to \<^verbatim>\<open>uint16_t\<close> and to \<^verbatim>\<open>int\<close>: the fraction is
  discarded; a value whose integral part does not fit \<^verbatim>\<open>uint16_t\<close> is undefined.
\<close>

definition c_trunc :: "real \<Rightarrow> int" where
  "c_trunc v = (if 0 \<le> v then \<lfloor>v\<rfloor> else \<lceil>v\<rceil>)"

definition double_to_uint16 :: "real \<Rightarrow> error + 16 word" where
  "double_to_uint16 v =
     (if - 1 < v \<and> v < 65536 then Inr (word_of_int (c_trunc v)) else Inl ConversionOutOfRange)"

text \<open>
  The block \<^verbatim>\<open>// Border width parsing\<close>, on the border of the result; the width goes
  to \<^verbatim>\<open>char widthStr[4]\<close>. \<^verbatim>\<open>atof\<close> is called in the branch that the first character
  of the token selects, and in no other.
\<close>

definition parse_border ::
  "(string \<Rightarrow> real) \<Rightarrow> ComponentOptions \<Rightarrow> Clay_BorderElementConfig \<Rightarrow>
   error + Clay_BorderElementConfig" where
  "parse_border atof options b =
     (if color_a (border_color (opt_border options)) \<noteq> 0 then
        let arr = char_array 6 (border_width (opt_border options));
            stringLen = strnlen arr 6 in
        case c_string arr of
          None \<Rightarrow> Inl OutOfBounds
        | Some s \<Rightarrow>
           (case strrchr s (CHR ''-'') of
              None \<Rightarrow> Inl (AssertionFailed ''Border format is {width}-{size} ex: t-50'')
            | Some widthLen \<Rightarrow>
               (let sizeLen = stringLen - (widthLen + 1);
                    directionStr = arr ! 0 in
                if 3 < sizeLen then Inl OutOfBounds
                else
                  let widthStr = take sizeLen (drop (widthLen + 1) s) in
                  if directionStr \<in> {CHR ''t'', CHR ''b'', CHR ''l'', CHR ''r'', CHR ''a''} then
                    (case double_to_uint16 (atof widthStr) of
                       Inl e \<Rightarrow> Inl e
                     | Inr v \<Rightarrow>
                        (let zero = \<lparr>bw_left = 0, bw_right = 0, bw_top = 0, bw_bottom = 0,
                                      bw_betweenChildren = 0\<rparr>;
                             b = (if directionStr = CHR ''t''
                                  then b\<lparr>bec_width := zero\<lparr>bw_top := v\<rparr>\<rparr> else b);
                             b = (if directionStr = CHR ''b''
                                  then b\<lparr>bec_width := zero\<lparr>bw_bottom := v\<rparr>\<rparr> else b);
                             b = (if directionStr = CHR ''l''
                                  then b\<lparr>bec_width := zero\<lparr>bw_left := v\<rparr>\<rparr> else b);
                             b = (if directionStr = CHR ''r''
                                  then b\<lparr>bec_width := zero\<lparr>bw_right := v\<rparr>\<rparr> else b);
                             b = (if directionStr = CHR ''a''
                                  then b\<lparr>bec_width := zero\<lparr>bw_top := v, bw_bottom := v,
                                                             bw_left := v, bw_right := v\<rparr>\<rparr>
                                  else b)
                         in Inr (b\<lparr>bec_color := border_color (opt_border options)\<rparr>)))
                  else Inr (b\<lparr>bec_color := border_color (opt_border options)\<rparr>)))
      else Inr b)"

text \<open>
  The block \<^verbatim>\<open>// Sizing\<close> is the same code twice, for \<^verbatim>\<open>options.h\<close> and then for
  \<^verbatim>\<open>options.w\<close>; \<open>parse_sizing\<close> is that code, on one axis. The last assertion's
  message is its third argument (the two copies spell it differently).
\<close>

definition parse_sizing ::
  "(string \<Rightarrow> real) \<Rightarrow> string option \<Rightarrow> string \<Rightarrow> Clay_SizingAxis \<Rightarrow> error + Clay_SizingAxis" where
  "parse_sizing atof token unknown_type axis =
     (case token of
        None \<Rightarrow> Inr axis
      | Some s \<Rightarrow>
         (let stringLen = length s in
          case strrchr s (CHR ''-'') of
            None \<Rightarrow> Inl (AssertionFailed ''Height or width format is {typing}-{size} ex: fit-0'')
          | Some typeLength \<Rightarrow>
             (let sizeLen = stringLen - (typeLength + 1) in
              if \<not> sizeLen < 10 then Inl (AssertionFailed ''Size string too long for buffer'')
              else
                let sizeString = take sizeLen (drop (typeLength + 1) s) in
                if \<not> 3 \<le> typeLength then Inl (AssertionFailed unknown_type)
                else
                  let axis = (if typeLength = 3 then CLAY_SIZING_FIT (atof sizeString) else axis);
                      axis = (if typeLength = 4 then CLAY_SIZING_GROW (atof sizeString) else axis);
                      axis = (if typeLength = 5 then CLAY_SIZING_FIXED (atof sizeString) else axis);
                      axis = (if typeLength = 7 then CLAY_SIZING_PERCENT (atof sizeString) else axis)
                  in Inr axis)))"

definition ParseComponentOptions ::
  "(string \<Rightarrow> 32 word \<Rightarrow> 32 word \<Rightarrow> Clay_ElementId) \<Rightarrow> (string \<Rightarrow> real) \<Rightarrow>
   ComponentOptions \<Rightarrow> 'a Clay_ElementDeclaration_scheme \<Rightarrow>
   error + 'a Clay_ElementDeclaration_scheme" where
  "ParseComponentOptions Clay__HashString atof options defaultOptions =
     (let result = defaultOptions;
          result = parse_misc Clay__HashString options result;
          result = result\<lparr>layout := (layout result)
                     \<lparr>padding := parse_padding options (padding (layout result))\<rparr>\<rparr>;
          result = result\<lparr>layout := (layout result)
                     \<lparr>childAlignment := parse_align options (childAlignment (layout result))\<rparr>\<rparr>;
          result = result\<lparr>scroll := parse_scroll options (scroll result)\<rparr>
      in
      case parse_borderRadius options (cornerRadius result) of
        Inl e \<Rightarrow> Inl e
      | Inr cr \<Rightarrow>
         (let result = result\<lparr>cornerRadius := cr\<rparr> in
          case parse_border atof options (border result) of
            Inl e \<Rightarrow> Inl e
          | Inr b \<Rightarrow>
             (let result = result\<lparr>border := b\<rparr> in
              case parse_sizing atof (opt_h options) ''Unknown sizing type''
                     (sizing_height (sizing (layout result))) of
                Inl e \<Rightarrow> Inl e
              | Inr ax \<Rightarrow>
                 (let result = result\<lparr>layout := (layout result)
                        \<lparr>sizing := (sizing (layout result))\<lparr>sizing_height := ax\<rparr>\<rparr>\<rparr> in
                  case parse_sizing atof (opt_w options) ''Unknown sizinng type''
                         (sizing_width (sizing (layout result))) of
                    Inl e \<Rightarrow> Inl e
                  | Inr ax \<Rightarrow>
                     Inr (result\<lparr>layout := (layout result)
                            \<lparr>sizing := (sizing (layout result))\<lparr>sizing_width := ax\<rparr>\<rparr>\<rparr>)))))"

subsection \<open>The defaults of the component classes\<close>

text \<open>
  A field that a C initialiser does not name is zero: the first enumerator of an
  enumeration, \<^verbatim>\<open>0\<close>, \<^verbatim>\<open>false\<close>.
\<close>

definition zeroSizingAxis :: Clay_SizingAxis where
  "zeroSizingAxis = \<lparr>axis_size = MinMax 0 0, axis_type = CLAY__SIZING_TYPE_FIT\<rparr>"

definition zeroLayout :: Clay_LayoutConfig where
  "zeroLayout =
     \<lparr>sizing = \<lparr>sizing_width = zeroSizingAxis, sizing_height = zeroSizingAxis\<rparr>,
      padding = \<lparr>padding_left = 0, padding_right = 0, padding_top = 0, padding_bottom = 0\<rparr>,
      childGap = 0,
      childAlignment = \<lparr>align_x = CLAY_ALIGN_X_LEFT, align_y = CLAY_ALIGN_Y_TOP\<rparr>,
      layoutDirection = CLAY_LEFT_TO_RIGHT\<rparr>"

definition zeroDeclaration :: Clay_ElementDeclaration where
  "zeroDeclaration =
     \<lparr>decl_id = \<lparr>eid_id = 0, eid_offset = 0, eid_baseId = 0, eid_stringId = []\<rparr>,
      layout = zeroLayout,
      backgroundColor = NONE,
      cornerRadius = CLAY_CORNER_RADIUS 0,
      scroll = \<lparr>horizontal = False, vertical = False\<rparr>,
      border = \<lparr>bec_color = NONE,
                 bec_width = \<lparr>bw_left = 0, bw_right = 0, bw_top = 0, bw_bottom = 0,
                               bw_betweenChildren = 0\<rparr>\<rparr>\<rparr>"

definition boxDefaultOptions :: Clay_ElementDeclaration where
  "boxDefaultOptions =
     zeroDeclaration\<lparr>layout := zeroLayout
       \<lparr>layoutDirection := CLAY_TOP_TO_BOTTOM,
        sizing := \<lparr>sizing_width = CLAY_SIZING_FIT 0, sizing_height = CLAY_SIZING_FIT 0\<rparr>\<rparr>\<rparr>"

definition columnDefaultOptions :: Clay_ElementDeclaration where
  "columnDefaultOptions =
     zeroDeclaration\<lparr>layout := zeroLayout
       \<lparr>layoutDirection := CLAY_TOP_TO_BOTTOM,
        sizing := \<lparr>sizing_width = CLAY_SIZING_FIT 0, sizing_height = CLAY_SIZING_FIT 0\<rparr>\<rparr>\<rparr>"

definition rowDefaultOptions :: Clay_ElementDeclaration where
  "rowDefaultOptions =
     zeroDeclaration\<lparr>layout := zeroLayout
       \<lparr>layoutDirection := CLAY_LEFT_TO_RIGHT,
        sizing := \<lparr>sizing_width = CLAY_SIZING_FIT 0, sizing_height = CLAY_SIZING_FIT 0\<rparr>\<rparr>\<rparr>"

definition separatorDefaultOptions :: Clay_ElementDeclaration where
  "separatorDefaultOptions =
     zeroDeclaration\<lparr>layout := zeroLayout
       \<lparr>sizing := \<lparr>sizing_width = CLAY_SIZING_GROW 0, sizing_height = CLAY_SIZING_GROW 0\<rparr>\<rparr>\<rparr>"

definition marginDefaultOptions :: Clay_ElementDeclaration where
  "marginDefaultOptions =
     zeroDeclaration\<lparr>layout := zeroLayout
       \<lparr>sizing := \<lparr>sizing_width = CLAY_SIZING_FIT 0, sizing_height = CLAY_SIZING_FIT 0\<rparr>\<rparr>\<rparr>"

text \<open>
  Stand-ins for the two library functions, to run the compiler on concrete requests:
  a hash that keeps the name, and \<^verbatim>\<open>atof\<close> on a string of decimal digits.
\<close>

definition hash_keep_name :: "string \<Rightarrow> 32 word \<Rightarrow> 32 word \<Rightarrow> Clay_ElementId" where
  "hash_keep_name name offset seed =
     \<lparr>eid_id = word_of_nat (length name) + seed, eid_offset = offset, eid_baseId = seed,
      eid_stringId = name\<rparr>"

definition digit_value :: "char \<Rightarrow> nat" where
  "digit_value c = of_char c - 48"

definition is_digit :: "char \<Rightarrow> bool" where
  "is_digit c = (48 \<le> (of_char c :: nat) \<and> (of_char c :: nat) \<le> 57)"

definition atof_digits :: "string \<Rightarrow> real" where
  "atof_digits s = real (foldl (\<lambda>n c. 10 * n + digit_value c) 0 (takeWhile is_digit s))"

subsection \<open>Scroll containers\<close>

record Clay_Vector2 =
  v_x :: real
  v_y :: real

record Clay_Dimensions =
  dim_width :: real
  dim_height :: real

text \<open>
  \<^verbatim>\<open>Clay_GetScrollContainerData\<close> hands out a pointer to the scroll position that the
  layout engine keeps for an element, and a null pointer for an element it does not
  know. The engine's table is a map from the hashed id to the container; the pointer
  write is an update of the map.
\<close>

record Clay_ScrollContainerData =
  scrollPosition :: Clay_Vector2
  scrollContainerDimensions :: Clay_Dimensions
  contentDimensions :: Clay_Dimensions

type_synonym scroll_containers = "32 word \<rightharpoonup> Clay_ScrollContainerData"

text \<open>
  \<^verbatim>\<open>ScrollContainerByY\<close>. The branch \<^verbatim>\<open>newValue == 0\<close> prints a diagnostic and changes
  nothing else.
\<close>

definition ScrollContainerByY ::
  "(string \<Rightarrow> 32 word \<Rightarrow> 32 word \<Rightarrow> Clay_ElementId) \<Rightarrow> scroll_containers \<Rightarrow> string \<Rightarrow> real \<Rightarrow>
   error + scroll_containers" where
  "ScrollContainerByY Clay__HashString containers containerName deltaY =
     (let key = eid_id (Clay__HashString containerName 0 0) in
      case containers key of
        None \<Rightarrow> Inl NullDereference
      | Some scrollContainerData \<Rightarrow>
         (let newScrollY = v_y (scrollPosition scrollContainerData) + deltaY;
              minScrollY = - max 0 (dim_height (contentDimensions scrollContainerData)
                                     - dim_height (scrollContainerDimensions scrollContainerData));
              newValue = min 0 (max newScrollY minScrollY)
          in Inr (containers(key \<mapsto> scrollContainerData
                    \<lparr>scrollPosition := (scrollPosition scrollContainerData)\<lparr>v_y := newValue\<rparr>\<rparr>))))"

subsection \<open>Render commands and draw calls\<close>

record Clay_BoundingBox =
  bb_x :: real
  bb_y :: real
  bb_width :: real
  bb_height :: real

datatype Clay_RenderCommandType =
    CLAY_RENDER_COMMAND_TYPE_NONE
  | CLAY_RENDER_COMMAND_TYPE_RECTANGLE
  | CLAY_RENDER_COMMAND_TYPE_BORDER
  | CLAY_RENDER_COMMAND_TYPE_TEXT
  | CLAY_RENDER_COMMAND_TYPE_IMAGE
  | CLAY_RENDER_COMMAND_TYPE_SCISSOR_START
  | CLAY_RENDER_COMMAND_TYPE_SCISSOR_END
  | CLAY_RENDER_COMMAND_TYPE_CUSTOM
  | CLAY_RENDER_COMMAND_TYPE_out_of_enum nat

type_synonym Font = nat
type_synonym Model = nat
type_synonym Vector3 = "real \<times> real \<times> real"

record Texture2D =
  tex_id :: nat
  tex_width :: int
  tex_height :: int

record Clay_TextRenderData =
  text_stringContents :: string
  text_textColor :: Clay_Color
  text_fontId :: "16 word"
  text_fontSize :: "16 word"
  text_letterSpacing :: "16 word"

record Clay_RectangleRenderData =
  rect_backgroundColor :: Clay_Color
  rect_cornerRadius :: Clay_CornerRadius

record Clay_ImageRenderData =
  img_backgroundColor :: Clay_Color
  img_imageData :: "Texture2D option"

record Clay_BorderRenderData =
  brd_color :: Clay_Color
  brd_cornerRadius :: Clay_CornerRadius
  brd_width :: Clay_BorderWidth

datatype CustomLayoutElementType =
    CUSTOM_LAYOUT_ELEMENT_TYPE_3D_MODEL
  | CUSTOM_LAYOUT_ELEMENT_TYPE_out_of_enum nat

record CustomLayoutElement_3DModel =
  m3d_model :: Model
  m3d_scale :: real
  m3d_position :: Vector3
  m3d_rotation :: "real list"

record CustomLayoutElement =
  cle_type :: CustomLayoutElementType
  cle_model :: CustomLayoutElement_3DModel

record Clay_CustomRenderData =
  cust_backgroundColor :: Clay_Color
  cust_customData :: "CustomLayoutElement option"

text \<open>
  \<^verbatim>\<open>renderData\<close> is a union; the interpreter reads the member that the command type
  names. The record keeps every member, so a command of any type has each of them.
\<close>

record Clay_RenderData =
  rd_rectangle :: Clay_RectangleRenderData
  rd_text :: Clay_TextRenderData
  rd_image :: Clay_ImageRenderData
  rd_custom :: Clay_CustomRenderData
  rd_border :: Clay_BorderRenderData

record Clay_RenderCommand =
  cmd_boundingBox :: Clay_BoundingBox
  cmd_renderData :: Clay_RenderData
  cmd_commandType :: Clay_RenderCommandType

text \<open>The raylib side: its value types and the drawing calls the interpreter makes.\<close>

record Color =
  col_r :: "8 word"
  col_g :: "8 word"
  col_b :: "8 word"
  col_a :: "8 word"

record Vector2 =
  vec_x :: real
  vec_y :: real

record Rectangle =
  rec_x :: real
  rec_y :: real
  rec_width :: real
  rec_height :: real

record Ray =
  ray_position :: Vector3
  ray_direction :: Vector3

datatype draw_call =
    DrawTextEx Font string Vector2 real real Color
  | DrawTextureEx Texture2D Vector2 real real Color
  | BeginScissorMode int int int int
  | EndScissorMode
  | DrawRectangleRounded Rectangle real int Color
  | DrawRectangle int int int int Color
  | DrawRing Vector2 real real real real int Color
  | BeginMode3D
  | DrawModel Model Vector3 real Color
  | EndMode3D

text \<open>
  How a run of the interpreter can stop before the end of the array: the process
  exits (\<^verbatim>\<open>exit(1)\<close>), or it faults. \<open>None\<close> of type \<open>halt option\<close> is the normal course.
\<close>

datatype halt = Exited int | Faulted error

text \<open>\<^verbatim>\<open>roundf\<close> rounds to the nearest integer, halfway cases away from zero.\<close>

definition roundf :: "real \<Rightarrow> int" where
  "roundf v = (if 0 \<le> v then \<lfloor>v + 1 / 2\<rfloor> else \<lceil>v - 1 / 2\<rceil>)"

text \<open>
  \<^verbatim>\<open>CLAY_COLOR_TO_RAYLIB_COLOR\<close>: each channel is rounded and cast to \<^verbatim>\<open>uint8_t\<close>. The
  layout engine's channels lie in 0..255; for any other value the low eight bits of
  the rounded value stand for the cast.
\<close>

definition CLAY_COLOR_TO_RAYLIB_COLOR :: "Clay_Color \<Rightarrow> Color" where
  "CLAY_COLOR_TO_RAYLIB_COLOR color =
     \<lparr>col_r = word_of_int (roundf (color_r color)), col_g = word_of_int (roundf (color_g color)),
      col_b = word_of_int (roundf (color_b color)), col_a = word_of_int (roundf (color_a color))\<rparr>"

definition WHITE :: Color where
  "WHITE = \<lparr>col_r = 255, col_g = 255, col_b = 255, col_a = 255\<rparr>"

definition CLAY__MIN :: "real \<Rightarrow> real \<Rightarrow> real" where
  "CLAY__MIN u v = (if u < v then u else v)"

definition CLAY__MAX :: "real \<Rightarrow> real \<Rightarrow> real" where
  "CLAY__MAX u v = (if u > v then u else v)"

subsection \<open>Clay_Raylib_Render\<close>

text \<open>
  Each case of the \<^verbatim>\<open>switch\<close> gives the calls it makes, in order, and how the
  iteration ends: \<open>None\<close> when the loop goes on to the next command, \<open>Some\<close> of a
  halt when the run stops there.
\<close>

text \<open>
  Case \<^verbatim>\<open>CLAY_RENDER_COMMAND_TYPE_TEXT\<close>. The slice is copied and terminated, so raylib
  sees the characters before the first NUL. \<^verbatim>\<open>fonts\<close> is the caller's array.
\<close>

definition render_text ::
  "Font list \<Rightarrow> Clay_BoundingBox \<Rightarrow> Clay_TextRenderData \<Rightarrow> draw_call list \<times> halt option" where
  "render_text fonts boundingBox textData =
     (let cloned = takeWhile (\<lambda>c. c \<noteq> NUL) (text_stringContents textData) in
      if unat (text_fontId textData) < length fonts then
        let fontToUse = fonts ! unat (text_fontId textData) in
        ([DrawTextEx fontToUse cloned \<lparr>vec_x = bb_x boundingBox, vec_y = bb_y boundingBox\<rparr>
            (real (unat (text_fontSize textData))) (real (unat (text_letterSpacing textData)))
            (CLAY_COLOR_TO_RAYLIB_COLOR (text_textColor textData))], None)
      else ([], Some (Faulted OutOfBounds)))"

text \<open>Case \<^verbatim>\<open>CLAY_RENDER_COMMAND_TYPE_IMAGE\<close>.\<close>

definition render_image ::
  "Clay_BoundingBox \<Rightarrow> Clay_ImageRenderData \<Rightarrow> draw_call list \<times> halt option" where
  "render_image boundingBox config =
     (case img_imageData config of
        None \<Rightarrow> ([], Some (Faulted NullDereference))
      | Some imageTexture \<Rightarrow>
         (let tintColor = img_backgroundColor config;
              tintColor = (if color_r tintColor = 0 \<and> color_g tintColor = 0
                              \<and> color_b tintColor = 0 \<and> color_a tintColor = 0
                           then \<lparr>color_r = 255, color_g = 255, color_b = 255, color_a = 255\<rparr>
                           else tintColor)
          in ([DrawTextureEx imageTexture
                 \<lparr>vec_x = bb_x boundingBox, vec_y = bb_y boundingBox\<rparr> 0
                 (bb_width boundingBox / real_of_int (tex_width imageTexture))
                 (CLAY_COLOR_TO_RAYLIB_COLOR tintColor)], None)))"

text \<open>
  Case \<^verbatim>\<open>CLAY_RENDER_COMMAND_TYPE_RECTANGLE\<close>. \<^verbatim>\<open>DrawRectangle\<close> takes \<^verbatim>\<open>int\<close>
  arguments (the border case casts to \<^verbatim>\<open>int\<close> for that reason); here the floats are
  passed as they are, so C converts them, dropping the fraction.
\<close>

definition render_rectangle ::
  "Clay_BoundingBox \<Rightarrow> Clay_RectangleRenderData \<Rightarrow> draw_call list \<times> halt option" where
  "render_rectangle boundingBox config =
     (if topLeft (rect_cornerRadius config) > 0 then
        let radius = (topLeft (rect_cornerRadius config) * 2)
                     / (if bb_width boundingBox > bb_height boundingBox
                        then bb_height boundingBox else bb_width boundingBox)
        in ([DrawRectangleRounded
               \<lparr>rec_x = bb_x boundingBox, rec_y = bb_y boundingBox,
                rec_width = bb_width boundingBox, rec_height = bb_height boundingBox\<rparr>
               radius 8 (CLAY_COLOR_TO_RAYLIB_COLOR (rect_backgroundColor config))], None)
      else
        ([DrawRectangle (c_trunc (bb_x boundingBox)) (c_trunc (bb_y boundingBox))
            (c_trunc (bb_width boundingBox)) (c_trunc (bb_height boundingBox))
            (CLAY_COLOR_TO_RAYLIB_COLOR (rect_backgroundColor config))], None))"

text \<open>
  Case \<^verbatim>\<open>CLAY_RENDER_COMMAND_TYPE_BORDER\<close>: up to four edge rectangles, then up to
  four rings. A border width is a \<^verbatim>\<open>uint16_t\<close>; in float arithmetic it is its value.
\<close>

definition render_border ::
  "Clay_BoundingBox \<Rightarrow> Clay_BorderRenderData \<Rightarrow> draw_call list \<times> halt option" where
  "render_border boundingBox config =
     (let cr = brd_cornerRadius config;
          bw = brd_width config;
          color = CLAY_COLOR_TO_RAYLIB_COLOR (brd_color config);
          left_border =
            (if bw_left bw > 0 then
               [DrawRectangle (roundf (bb_x boundingBox))
                  (roundf (bb_y boundingBox + topLeft cr))
                  (uint (bw_left bw))
                  (roundf (bb_height boundingBox - topLeft cr - bottomLeft cr)) color]
             else []);
          right_border =
            (if bw_right bw > 0 then
               [DrawRectangle
                  (roundf (bb_x boundingBox + bb_width boundingBox - real (unat (bw_right bw))))
                  (roundf (bb_y boundingBox + topRight cr))
                  (uint (bw_right bw))
                  (roundf (bb_height boundingBox - topRight cr - bottomRight cr)) color]
             else []);
          top_border =
            (if bw_top bw > 0 then
               [DrawRectangle (roundf (bb_x boundingBox + topLeft cr))
                  (roundf (bb_y boundingBox))
                  (roundf (bb_width boundingBox - topLeft cr - topRight cr))
                  (uint (bw_top bw)) color]
             else []);
          bottom_border =
            (if bw_bottom bw > 0 then
               [DrawRectangle (roundf (bb_x boundingBox + bottomLeft cr))
                  (roundf (bb_y boundingBox + bb_height boundingBox - real (unat (bw_bottom bw))))
                  (roundf (bb_width boundingBox - bottomLeft cr - bottomRight cr))
                  (uint (bw_bottom bw)) color]
             else []);
          topLeft_ring =
            (if topLeft cr > 0 then
               [DrawRing \<lparr>vec_x = real_of_int (roundf (bb_x boundingBox + topLeft cr)),
                          vec_y = real_of_int (roundf (bb_y boundingBox + topLeft cr))\<rparr>
                  (real_of_int (roundf (topLeft cr - real (unat (bw_top bw)))))
                  (topLeft cr) 180 270 10 color]
             else []);
          topRight_ring =
            (if topRight cr > 0 then
               [DrawRing \<lparr>vec_x = real_of_int (roundf (bb_x boundingBox + bb_width boundingBox
                                                          - topRight cr)),
                          vec_y = real_of_int (roundf (bb_y boundingBox + topRight cr))\<rparr>
                  (real_of_int (roundf (topRight cr - real (unat (bw_top bw)))))
                  (topRight cr) 270 360 10 color]
             else []);
          bottomLeft_ring =
            (if bottomLeft cr > 0 then
               [DrawRing \<lparr>vec_x = real_of_int (roundf (bb_x boundingBox + bottomLeft cr)),
                          vec_y = real_of_int (roundf (bb_y boundingBox + bb_height boundingBox
                                                          - bottomLeft cr))\<rparr>
                  (real_of_int (roundf (bottomLeft cr - real (unat (bw_top bw)))))
                  (bottomLeft cr) 90 180 10 color]
             else []);
          bottomRight_ring =
            (if bottomRight cr > 0 then
               [DrawRing \<lparr>vec_x = real_of_int (roundf (bb_x boundingBox + bb_width boundingBox
                                                          - bottomRight cr)),
                          vec_y = real_of_int (roundf (bb_y boundingBox + bb_height boundingBox
                                                          - bottomRight cr))\<rparr>
                  (real_of_int (roundf (bottomRight cr - real (unat (bw_bottom bw)))))
                  (bottomRight cr) (1 / 10) 90 10 color]
             else [])
      in (left_border @ right_border @ top_border @ bottom_border
          @ topLeft_ring @ topRight_ring @ bottomLeft_ring @ bottomRight_ring, None))"

text \<open>
  Case \<^verbatim>\<open>CLAY_RENDER_COMMAND_TYPE_CUSTOM\<close>. \<open>scaleValue\<close> is the local of that name,
  computed from the bounding box of \<^verbatim>\<open>renderCommands.internalArray[0]\<close>.
  \<^verbatim>\<open>GetScreenToWorldPointWithZDistance\<close> is built from raymath's matrix functions and
  the global camera; it is a parameter here, applied to the arguments of the call.
\<close>

definition boundingBox_of_first :: "Clay_RenderCommand list \<Rightarrow> Clay_BoundingBox" where
  "boundingBox_of_first renderCommands = cmd_boundingBox (renderCommands ! 0)"

definition scaleValue :: "Clay_BoundingBox \<Rightarrow> real" where
  "scaleValue rootBox =
     CLAY__MIN (CLAY__MIN 1 (768 / bb_height rootBox) * CLAY__MAX 1 (bb_width rootBox / 1024))
       (3 / 2)"

definition render_custom ::
  "(Vector2 \<Rightarrow> int \<Rightarrow> int \<Rightarrow> real \<Rightarrow> Ray) \<Rightarrow> Clay_RenderCommand list \<Rightarrow> Clay_BoundingBox \<Rightarrow>
   Clay_CustomRenderData \<Rightarrow> draw_call list \<times> halt option" where
  "render_custom GetScreenToWorldPointWithZDistance renderCommands boundingBox config =
     (case cust_customData config of
        None \<Rightarrow> ([], None)
      | Some customElement \<Rightarrow>
         (case cle_type customElement of
            CUSTOM_LAYOUT_ELEMENT_TYPE_3D_MODEL \<Rightarrow>
              (let rootBox = boundingBox_of_first renderCommands;
                   positionRay = GetScreenToWorldPointWithZDistance
                     \<lparr>vec_x = bb_x boundingBox + bb_width boundingBox / 2,
                      vec_y = bb_y boundingBox + bb_height boundingBox / 2 + 20\<rparr>
                     (roundf (bb_width rootBox)) (roundf (bb_height rootBox)) 140
               in ([BeginMode3D,
                    DrawModel (m3d_model (cle_model customElement)) (ray_position positionRay)
                      (m3d_scale (cle_model customElement) * scaleValue rootBox) WHITE,
                    EndMode3D], None))
          | CUSTOM_LAYOUT_ELEMENT_TYPE_out_of_enum t \<Rightarrow> ([], None)))"

text \<open>The body of the loop: the \<^verbatim>\<open>switch\<close> on the command type.\<close>

definition render_command ::
  "Font list \<Rightarrow> (Vector2 \<Rightarrow> int \<Rightarrow> int \<Rightarrow> real \<Rightarrow> Ray) \<Rightarrow> Clay_RenderCommand list \<Rightarrow>
   Clay_RenderCommand \<Rightarrow> draw_call list \<times> halt option" where
  "render_command fonts GetScreenToWorldPointWithZDistance renderCommands renderCommand =
     (let boundingBox = cmd_boundingBox renderCommand in
      case cmd_commandType renderCommand of
        CLAY_RENDER_COMMAND_TYPE_TEXT \<Rightarrow>
          render_text fonts boundingBox (rd_text (cmd_renderData renderCommand))
      | CLAY_RENDER_COMMAND_TYPE_IMAGE \<Rightarrow>
          render_image boundingBox (rd_image (cmd_renderData renderCommand))
      | CLAY_RENDER_COMMAND_TYPE_SCISSOR_START \<Rightarrow>
          ([BeginScissorMode (roundf (bb_x boundingBox)) (roundf (bb_y boundingBox))
              (roundf (bb_width boundingBox)) (roundf (bb_height boundingBox))], None)
      | CLAY_RENDER_COMMAND_TYPE_SCISSOR_END \<Rightarrow> ([EndScissorMode], None)
      | CLAY_RENDER_COMMAND_TYPE_RECTANGLE \<Rightarrow>
          render_rectangle boundingBox (rd_rectangle (cmd_renderData renderCommand))
      | CLAY_RENDER_COMMAND_TYPE_BORDER \<Rightarrow>
          render_border boundingBox (rd_border (cmd_renderData renderCommand))
      | CLAY_RENDER_COMMAND_TYPE_CUSTOM \<Rightarrow>
          render_custom GetScreenToWorldPointWithZDistance renderCommands boundingBox
            (rd_custom (cmd_renderData renderCommand))
      | CLAY_RENDER_COMMAND_TYPE_NONE \<Rightarrow> ([], Some (Exited 1))
      | CLAY_RENDER_COMMAND_TYPE_out_of_enum t \<Rightarrow> ([], Some (Exited 1)))"

text \<open>The loop over the command array, from the command at hand to the end.\<close>

fun Render_loop ::
  "Font list \<Rightarrow> (Vector2 \<Rightarrow> int \<Rightarrow> int \<Rightarrow> real \<Rightarrow> Ray) \<Rightarrow> Clay_RenderCommand list \<Rightarrow>
   Clay_RenderCommand list \<Rightarrow> draw_call list \<times> halt option" where
  "Render_loop fonts G renderCommands [] = ([], None)"
| "Render_loop fonts G renderCommands (renderCommand # rest) =
     (case render_command fonts G renderCommands renderCommand of
        (calls, Some stop) \<Rightarrow> (calls, Some stop)
      | (calls, None) \<Rightarrow>
         (case Render_loop fonts G renderCommands rest of
            (calls', out) \<Rightarrow> (calls @ calls', out)))"

definition Clay_Raylib_Render ::
  "Font list \<Rightarrow> (Vector2 \<Rightarrow> int \<Rightarrow> int \<Rightarrow> real \<Rightarrow> Ray) \<Rightarrow> Clay_RenderCommand list \<Rightarrow>
   draw_call list \<times> halt option" where
  "Clay_Raylib_Render fonts G renderCommands = Render_loop fonts G renderCommands renderCommands"

text \<open>The case labels of the \<^verbatim>\<open>switch\<close>; every other command type takes the \<^verbatim>\<open>default\<close>.\<close>

definition handled :: "Clay_RenderCommandType \<Rightarrow> bool" where
  "handled t =
     (t = CLAY_RENDER_COMMAND_TYPE_TEXT \<or> t = CLAY_RENDER_COMMAND_TYPE_IMAGE
      \<or> t = CLAY_RENDER_COMMAND_TYPE_SCISSOR_START \<or> t = CLAY_RENDER_COMMAND_TYPE_SCISSOR_END
      \<or> t = CLAY_RENDER_COMMAND_TYPE_RECTANGLE \<or> t = CLAY_RENDER_COMMAND_TYPE_BORDER
      \<or> t = CLAY_RENDER_COMMAND_TYPE_CUSTOM)"

text \<open>
  To run the interpreter on concrete commands: a command whose bytes are all zero,
  and a stand-in for the screen-to-world ray.
\<close>

definition zeroRenderData :: Clay_RenderData where
  "zeroRenderData =
     \<lparr>rd_rectangle = \<lparr>rect_backgroundColor = NONE, rect_cornerRadius = CLAY_CORNER_RADIUS 0\<rparr>,
      rd_text = \<lparr>text_stringContents = [], text_textColor = NONE, text_fontId = 0,
                 text_fontSize = 0, text_letterSpacing = 0\<rparr>,
      rd_image = \<lparr>img_backgroundColor = NONE, img_imageData = None\<rparr>,
      rd_custom = \<lparr>cust_backgroundColor = NONE, cust_customData = None\<rparr>,
      rd_border = \<lparr>brd_color = NONE, brd_cornerRadius = CLAY_CORNER_RADIUS 0,
                   brd_width = \<lparr>bw_left = 0, bw_right = 0, bw_top = 0, bw_bottom = 0,
                                 bw_betweenChildren = 0\<rparr>\<rparr>\<rparr>"

definition zeroRenderCommand :: Clay_RenderCommand where
  "zeroRenderCommand =
     \<lparr>cmd_boundingBox = \<lparr>bb_x = 0, bb_y = 0, bb_width = 0, bb_height = 0\<rparr>,
      cmd_renderData = zeroRenderData,
      cmd_commandType = CLAY_RENDER_COMMAND_TYPE_NONE\<rparr>"

definition rectangle_command ::
  "Clay_BoundingBox \<Rightarrow> Clay_CornerRadius \<Rightarrow> Clay_Color \<Rightarrow> Clay_RenderCommand" where
  "rectangle_command box radius color =
     \<lparr>cmd_boundingBox = box,
      cmd_renderData = zeroRenderData
        \<lparr>rd_rectangle := \<lparr>rect_backgroundColor = color, rect_cornerRadius = radius\<rparr>\<rparr>,
      cmd_commandType = CLAY_RENDER_COMMAND_TYPE_RECTANGLE\<rparr>"

definition border_command ::
  "Clay_BoundingBox \<Rightarrow> Clay_CornerRadius \<Rightarrow> Clay_BorderWidth \<Rightarrow> Clay_Color \<Rightarrow>
   Clay_RenderCommand" where
  "border_command box radius widths color =
     \<lparr>cmd_boundingBox = box,
      cmd_renderData = zeroRenderData
        \<lparr>rd_border := \<lparr>brd_color = color, brd_cornerRadius = radius, brd_width = widths\<rparr>\<rparr>,
      cmd_commandType = CLAY_RENDER_COMMAND_TYPE_BORDER\<rparr>"

definition custom_command ::
  "Clay_BoundingBox \<Rightarrow> CustomLayoutElement option \<Rightarrow> Clay_RenderCommand" where
  "custom_command box customData =
     \<lparr>cmd_boundingBox = box,
      cmd_renderData = zeroRenderData
        \<lparr>rd_custom := \<lparr>cust_backgroundColor = NONE, cust_customData = customData\<rparr>\<rparr>,
      cmd_commandType = CLAY_RENDER_COMMAND_TYPE_CUSTOM\<rparr>"

definition ray_at_origin :: "Vector2 \<Rightarrow> int \<Rightarrow> int \<Rightarrow> real \<Rightarrow> Ray" where
  "ray_at_origin position screenWidth screenHeight zDistance =
     \<lparr>ray_position = (0, 0, 0), ray_direction = (0, 0, 1)\<rparr>"

subsection \<open>The arena\<close>

text \<open>
  \<open>buffer\<close> is the address that \<^verbatim>\<open>malloc\<close> returned; the block is the \<open>bufferLength\<close>
  bytes from there. The content of the block plays no part in what follows and is
  not kept.
\<close>

record Arena =
  buffer :: "64 word"
  bufferLength :: "64 word"
  prevOffset :: "64 word"
  currOffset :: "64 word"

definition DEFAULT_ALIGNMENT :: "64 word" where
  "DEFAULT_ALIGNMENT = 2 * 8"

definition alignForward :: "64 word \<Rightarrow> 64 word" where
  "alignForward ptr =
     (let p = ptr;
          a = DEFAULT_ALIGNMENT;
          modulo = p AND (a - 1)
      in if modulo \<noteq> 0 then p + (a - modulo) else p)"

text \<open>
  \<^verbatim>\<open>ArenaAlloc\<close>. The sum \<^verbatim>\<open>offset + size\<close> of the assertion is a \<^verbatim>\<open>size_t\<close> sum: it
  wraps at \<open>2 ^ 64\<close>. \<^verbatim>\<open>memset\<close> then writes \<open>size\<close> bytes from \<^verbatim>\<open>&buffer[offset]\<close>;
  bytes outside the block are an \<open>OutOfBounds\<close> write. (The parameter \<^verbatim>\<open>size\<close> is
  \<open>size'\<close>, \<open>size\<close> being a constant of HOL.)
\<close>

definition ArenaAlloc :: "Arena \<Rightarrow> 64 word \<Rightarrow> error + (64 word \<times> Arena)" where
  "ArenaAlloc a size' =
     (let currPtr = buffer a + currOffset a;
          offset = alignForward currPtr;
          offset = offset - buffer a
      in if \<not> offset + size' \<le> bufferLength a
         then Inl (AssertionFailed ''Arena ran out of space left'')
         else
           let ptr = buffer a + offset;
               a = a\<lparr>prevOffset := offset, currOffset := offset + size'\<rparr>
           in if unat offset + unat size' \<le> unat (bufferLength a) then Inr (ptr, a)
              else Inl OutOfBounds)"

definition ArenaReset :: "Arena \<Rightarrow> Arena" where
  "ArenaReset arena = arena\<lparr>currOffset := 0\<rparr>"

text \<open>\<^verbatim>\<open>ArenaInit\<close>, given the address that its \<^verbatim>\<open>malloc\<close> returns.\<close>

definition ArenaInit :: "64 word \<Rightarrow> 64 word \<Rightarrow> Arena" where
  "ArenaInit malloc_result size' =
     \<lparr>buffer = malloc_result, bufferLength = size', prevOffset = 0, currOffset = 0\<rparr>"

text \<open>
  An arena as \<^verbatim>\<open>ArenaInit\<close> and \<^verbatim>\<open>ArenaAlloc\<close> leave it: the block, with room for one
  more alignment step, lies in the address space, and the offset lies in the block.
\<close>

definition arena_wf :: "Arena \<Rightarrow> bool" where
  "arena_wf a \<longleftrightarrow>
     unat (buffer a) + unat (bufferLength a) + 15 < 2 ^ 64
     \<and> unat (currOffset a) \<le> unat (bufferLength a)"

text \<open>
  A caller that allocates one size after the other, with no reset in between, and
  keeps the regions it gets: each the returned address and the size asked for.
\<close>

fun ArenaAlloc_each :: "Arena \<Rightarrow> 64 word list \<Rightarrow> error + ((64 word \<times> 64 word) list \<times> Arena)" where
  "ArenaAlloc_each a [] = Inr ([], a)"
| "ArenaAlloc_each a (n # ns) =
     (case ArenaAlloc a n of
        Inl e \<Rightarrow> Inl e
      | Inr (ptr, a') \<Rightarrow>
         (case ArenaAlloc_each a' ns of
            Inl e \<Rightarrow> Inl e
          | Inr (regions, a'') \<Rightarrow> Inr ((ptr, n) # regions, a'')))"

text \<open>
  Regions in a row from an address on: each starts at or after the end of the one
  before it, the first at or after the given address.
\<close>

fun in_a_row :: "nat \<Rightarrow> (64 word \<times> 64 word) list \<Rightarrow> bool" where
  "in_a_row lo [] = True"
| "in_a_row lo ((ptr, n) # regions) = (lo \<le> unat ptr \<and> in_a_row (unat ptr + unat n) regions)"

section \<open>Properties of the style token compiler\<close>

subsection \<open>What the first block leaves alone, and what the result takes from each block\<close>

lemma parse_misc_frame:
  "padding (layout (parse_misc hsh options r)) = padding (layout r)"
  "border (parse_misc hsh options r) = border r"
  by (simp_all add: parse_misc_def Let_def split: option.splits)

lemma ParseComponentOptions_padding:
  assumes "ParseComponentOptions hsh atof options d = Inr result"
  shows "padding (layout result) = parse_padding options (padding (layout d))"
  using assms
  by (auto simp: ParseComponentOptions_def parse_misc_frame Let_def split: sum.splits)

lemma ParseComponentOptions_border:
  assumes "ParseComponentOptions hsh atof options d = Inr result"
  shows "parse_border atof options (border d) = Inr (border result)"
  using assms
  by (auto simp: ParseComponentOptions_def parse_misc_frame Let_def split: sum.splits)

lemma empty_stages:
  "parse_misc hsh emptyOptions r = r"
  "parse_padding emptyOptions pd = pd"
  "parse_align emptyOptions al = al"
  "parse_scroll emptyOptions sc = sc"
  "parse_borderRadius emptyOptions cr = Inr cr"
  "parse_border atof emptyOptions b = Inr b"
  "parse_sizing atof (opt_h emptyOptions) m ax = Inr ax"
  "parse_sizing atof (opt_w emptyOptions) m ax = Inr ax"
  by (simp_all add: parse_misc_def parse_padding_def parse_align_def parse_scroll_def
      parse_borderRadius_def parse_border_def parse_sizing_def emptyOptions_def NONE_def
      char_array_def NUL_def)

lemma token_a_50:
  "char_array 6 ''a-50'' = [CHR ''a'', CHR ''-'', CHR ''5'', CHR ''0'', NUL, NUL]"
  "c_string [CHR ''a'', CHR ''-'', CHR ''5'', CHR ''0'', NUL, NUL] = Some ''a-50''"
  "strnlen [CHR ''a'', CHR ''-'', CHR ''5'', CHR ''0'', NUL, NUL] 6 = 4"
  "strrchr ''a-50'' (CHR ''-'') = Some 1"
  by (simp_all add: char_array_def c_string_def strnlen_def strrchr_def NUL_def numeral_eq_Suc)

lemma double_to_uint16_50: "double_to_uint16 50 = Inr 50"
  by (simp add: double_to_uint16_def c_trunc_def)

lemma atof_digits_50: "atof_digits ''50'' = 50"
  by (simp add: atof_digits_def is_digit_def digit_value_def)

subsection \<open>The empty request\<close>

text \<open>
  Claim C1. Resolving the request in which every field is unset returns the defaults,
  equal in every field, whatever the defaults are (those of Box, Column, Row,
  Separator and Margin among them) and whatever the fields of the declaration that
  the compiler does not know about.
\<close>

theorem ParseComponentOptions_empty:
  "ParseComponentOptions hsh atof emptyOptions d = Inr d"
  by (simp add: ParseComponentOptions_def empty_stages)

subsection \<open>Padding\<close>

text \<open>
  Claim C2. A padding field is supplied when it is not zero. In the result of a
  request, the padding of an edge is the single-edge value when that is supplied,
  otherwise the value of the axis covering the edge when that is supplied, otherwise
  the whole-padding value when that is supplied, otherwise the default: the more
  specific field wins. The request is a record, so the order in which its fields were
  written plays no part.
\<close>

theorem padding_precedence:
  assumes "ParseComponentOptions hsh atof options d = Inr result"
  shows "padding_top (padding (layout result)) =
           (if opt_pt options \<noteq> 0 then opt_pt options
            else if opt_py options \<noteq> 0 then opt_py options
            else if opt_p options \<noteq> 0 then opt_p options
            else padding_top (padding (layout d)))
       \<and> padding_bottom (padding (layout result)) =
           (if opt_pb options \<noteq> 0 then opt_pb options
            else if opt_py options \<noteq> 0 then opt_py options
            else if opt_p options \<noteq> 0 then opt_p options
            else padding_bottom (padding (layout d)))
       \<and> padding_left (padding (layout result)) =
           (if opt_pl options \<noteq> 0 then opt_pl options
            else if opt_px options \<noteq> 0 then opt_px options
            else if opt_p options \<noteq> 0 then opt_p options
            else padding_left (padding (layout d)))
       \<and> padding_right (padding (layout result)) =
           (if opt_pr options \<noteq> 0 then opt_pr options
            else if opt_px options \<noteq> 0 then opt_px options
            else if opt_p options \<noteq> 0 then opt_p options
            else padding_right (padding (layout d)))"
  unfolding ParseComponentOptions_padding [OF assms]
  by (simp add: parse_padding_def Let_def)

text \<open>
  A Box with \<^verbatim>\<open>.p = 4, .py = 8, .pt = 2, .pr = 6\<close>: top 2 (edge over axis and whole),
  bottom 8 (axis over whole), left 4 (whole), right 6 (edge over whole).
\<close>

theorem padding_precedence_witness:
  "ParseComponentOptions hash_keep_name atof_digits
     (emptyOptions\<lparr>opt_p := 4, opt_py := 8, opt_pt := 2, opt_pr := 6\<rparr>) boxDefaultOptions
   = Inr (boxDefaultOptions\<lparr>layout := (layout boxDefaultOptions)
            \<lparr>padding := \<lparr>padding_left = 4, padding_right = 6, padding_top = 2,
                           padding_bottom = 8\<rparr>\<rparr>\<rparr>)
   \<and> padding_top (padding (layout (boxDefaultOptions\<lparr>layout := (layout boxDefaultOptions)
            \<lparr>padding := \<lparr>padding_left = 4, padding_right = 6, padding_top = 2,
                           padding_bottom = 8\<rparr>\<rparr>\<rparr>))) = 2"
proof -
  let ?opts = "emptyOptions\<lparr>opt_p := 4, opt_py := 8, opt_pt := 2, opt_pr := 6\<rparr>"
  let ?res = "boxDefaultOptions\<lparr>layout := (layout boxDefaultOptions)
            \<lparr>padding := \<lparr>padding_left = 4, padding_right = 6, padding_top = 2,
                           padding_bottom = 8\<rparr>\<rparr>\<rparr>"
  have run: "ParseComponentOptions hash_keep_name atof_digits ?opts boxDefaultOptions = Inr ?res"
    by (simp add: ParseComponentOptions_def parse_misc_def parse_padding_def parse_align_def
        parse_scroll_def parse_borderRadius_def parse_border_def parse_sizing_def
        emptyOptions_def NONE_def char_array_def NUL_def boxDefaultOptions_def
        zeroDeclaration_def zeroLayout_def)
  from padding_precedence [OF run] run show ?thesis
    by (simp add: emptyOptions_def)
qed

subsection \<open>The border\<close>

text \<open>
  Claim C8. The border block is gated on the alpha of the border colour. When the
  alpha is zero, the border of the result (its four edge widths, its colour, and the
  rest of it) is the border of the defaults, whatever the width token. When the alpha
  is not zero and the width token is \<^verbatim>\<open>"a-50"\<close>, the four edge widths are 50 and the
  colour is the colour of the request (\<^verbatim>\<open>atof\<close> reads \<^verbatim>\<open>"50"\<close> as 50).
\<close>

theorem border_gate:
  assumes "ParseComponentOptions hsh atof options d = Inr result"
  shows "(color_a (border_color (opt_border options)) = 0 \<longrightarrow> border result = border d)
       \<and> (color_a (border_color (opt_border options)) \<noteq> 0
            \<and> border_width (opt_border options) = ''a-50'' \<and> atof ''50'' = 50 \<longrightarrow>
          bw_top (bec_width (border result)) = 50 \<and> bw_bottom (bec_width (border result)) = 50
          \<and> bw_left (bec_width (border result)) = 50 \<and> bw_right (bec_width (border result)) = 50
          \<and> bec_color (border result) = border_color (opt_border options))"
proof -
  have gate: "border result = border d" if "color_a (border_color (opt_border options)) = 0"
    using ParseComponentOptions_border [OF assms] that by (simp add: parse_border_def)
  have all: "border result =
      (border d)\<lparr>bec_width := \<lparr>bw_left = 50, bw_right = 50, bw_top = 50, bw_bottom = 50,
                                  bw_betweenChildren = 0\<rparr>,
                 bec_color := border_color (opt_border options)\<rparr>"
    if "color_a (border_color (opt_border options)) \<noteq> 0"
      and "border_width (opt_border options) = ''a-50''" and "atof ''50'' = 50"
  proof -
    have "parse_border atof options (border d) =
      Inr ((border d)\<lparr>bec_width := \<lparr>bw_left = 50, bw_right = 50, bw_top = 50, bw_bottom = 50,
                                       bw_betweenChildren = 0\<rparr>,
                      bec_color := border_color (opt_border options)\<rparr>)"
      using that by (simp add: parse_border_def token_a_50 double_to_uint16_50)
    with ParseComponentOptions_border [OF assms] show ?thesis by simp
  qed
  show ?thesis
    using gate all by auto
qed

text \<open>A request that sets the border only.\<close>

lemma border_only_stages:
  "parse_misc hsh (emptyOptions\<lparr>opt_border := B\<rparr>) r = r"
  "parse_padding (emptyOptions\<lparr>opt_border := B\<rparr>) pd = pd"
  "parse_align (emptyOptions\<lparr>opt_border := B\<rparr>) al = al"
  "parse_scroll (emptyOptions\<lparr>opt_border := B\<rparr>) sc = sc"
  "parse_borderRadius (emptyOptions\<lparr>opt_border := B\<rparr>) cr = Inr cr"
  by (simp_all add: parse_misc_def parse_padding_def parse_align_def parse_scroll_def
      parse_borderRadius_def emptyOptions_def NONE_def char_array_def NUL_def)

lemma border_only_request:
  "ParseComponentOptions hsh atof (emptyOptions\<lparr>opt_border := B\<rparr>) d =
     (case parse_border atof (emptyOptions\<lparr>opt_border := B\<rparr>) (border d) of
        Inl e \<Rightarrow> Inl e | Inr b \<Rightarrow> Inr (d\<lparr>border := b\<rparr>))"
  by (simp add: ParseComponentOptions_def border_only_stages empty_stages Let_def
      split: sum.splits)

text \<open>
  A Row with the token \<^verbatim>\<open>"a-50"\<close>: with the colour \<^verbatim>\<open>NONE\<close> the result is the
  defaults; with \<^verbatim>\<open>RED_500\<close> the four widths are 50 and the colour is \<^verbatim>\<open>RED_500\<close>.
\<close>

theorem border_gate_witness:
  "ParseComponentOptions hash_keep_name atof_digits
     (emptyOptions\<lparr>opt_border := \<lparr>border_color = NONE, border_width = ''a-50''\<rparr>\<rparr>)
     rowDefaultOptions = Inr rowDefaultOptions
   \<and> color_a NONE = 0
   \<and> ParseComponentOptions hash_keep_name atof_digits
     (emptyOptions\<lparr>opt_border :=
        \<lparr>border_color = \<lparr>color_r = 239, color_g = 68, color_b = 68, color_a = 255\<rparr>,
         border_width = ''a-50''\<rparr>\<rparr>)
     rowDefaultOptions
     = Inr (rowDefaultOptions\<lparr>border := (border rowDefaultOptions)
        \<lparr>bec_width := \<lparr>bw_left = 50, bw_right = 50, bw_top = 50, bw_bottom = 50,
                       bw_betweenChildren = 0\<rparr>,
         bec_color := \<lparr>color_r = 239, color_g = 68, color_b = 68, color_a = 255\<rparr>\<rparr>\<rparr>)
   \<and> atof_digits ''50'' = 50"
proof -
  let ?red = "\<lparr>color_r = 239, color_g = 68, color_b = 68, color_a = 255\<rparr>"
  let ?o1 = "emptyOptions\<lparr>opt_border := \<lparr>border_color = NONE, border_width = ''a-50''\<rparr>\<rparr>"
  let ?o2 = "emptyOptions\<lparr>opt_border := \<lparr>border_color = ?red, border_width = ''a-50''\<rparr>\<rparr>"
  let ?r2 = "rowDefaultOptions\<lparr>border := (border rowDefaultOptions)
        \<lparr>bec_width := \<lparr>bw_left = 50, bw_right = 50, bw_top = 50, bw_bottom = 50,
                       bw_betweenChildren = 0\<rparr>,
         bec_color := ?red\<rparr>\<rparr>"
  have run1: "ParseComponentOptions hash_keep_name atof_digits ?o1 rowDefaultOptions
      = Inr rowDefaultOptions"
    by (simp add: border_only_request parse_border_def NONE_def)
  have run2: "ParseComponentOptions hash_keep_name atof_digits ?o2 rowDefaultOptions = Inr ?r2"
    by (simp add: border_only_request parse_border_def token_a_50 double_to_uint16_50
        atof_digits_50)
  from border_gate [OF run1] border_gate [OF run2] run1 run2 atof_digits_50
  show ?thesis by (simp add: NONE_def)
qed

section \<open>Properties of the scroll helper\<close>

text \<open>
  Claim C3. For a container that the layout engine knows, \<^verbatim>\<open>ScrollContainerByY\<close>
  stores the position \<open>min 0 (max (current + delta) (- max 0 (contentHeight -
  viewportHeight)))\<close> and nothing else; that position is never positive. With content
  height 500, viewport height 200 and position 0, a delta of \<open>-1000\<close> gives \<open>-300\<close>,
  and the same delta from \<open>-300\<close> gives \<open>-300\<close> again.
\<close>

theorem ScrollContainerByY_clamp:
  assumes "containers (eid_id (hsh containerName 0 0)) = Some sc"
  shows "ScrollContainerByY hsh containers containerName deltaY =
           Inr (containers(eid_id (hsh containerName 0 0) \<mapsto> sc\<lparr>scrollPosition := (scrollPosition sc)
             \<lparr>v_y := min 0 (max (v_y (scrollPosition sc) + deltaY)
                 (- max 0 (dim_height (contentDimensions sc)
                            - dim_height (scrollContainerDimensions sc))))\<rparr>\<rparr>))
       \<and> min 0 (max (v_y (scrollPosition sc) + deltaY)
                 (- max 0 (dim_height (contentDimensions sc)
                            - dim_height (scrollContainerDimensions sc)))) \<le> 0
       \<and> (dim_height (contentDimensions sc) = 500 \<and> dim_height (scrollContainerDimensions sc) = 200
            \<and> v_y (scrollPosition sc) = 0 \<and> deltaY = - 1000 \<longrightarrow>
          ScrollContainerByY hsh containers containerName deltaY =
           Inr (containers(eid_id (hsh containerName 0 0) \<mapsto> sc\<lparr>scrollPosition := (scrollPosition sc)
             \<lparr>v_y := - 300\<rparr>\<rparr>)))
       \<and> (dim_height (contentDimensions sc) = 500 \<and> dim_height (scrollContainerDimensions sc) = 200
            \<and> v_y (scrollPosition sc) = - 300 \<and> deltaY = - 1000 \<longrightarrow>
          ScrollContainerByY hsh containers containerName deltaY =
           Inr (containers(eid_id (hsh containerName 0 0) \<mapsto> sc\<lparr>scrollPosition := (scrollPosition sc)
             \<lparr>v_y := - 300\<rparr>\<rparr>)))"
  using assms by (simp add: ScrollContainerByY_def Let_def)

text \<open>The container \<^verbatim>\<open>"list"\<close>, 500 high in a viewport 200 high, scrolled twice by \<open>-1000\<close>.\<close>

theorem ScrollContainerByY_clamp_witness:
  "ScrollContainerByY hash_keep_name
     [4 \<mapsto> \<lparr>scrollPosition = \<lparr>v_x = 0, v_y = 0\<rparr>,
            scrollContainerDimensions = \<lparr>dim_width = 300, dim_height = 200\<rparr>,
            contentDimensions = \<lparr>dim_width = 300, dim_height = 500\<rparr>\<rparr>] ''list'' (- 1000)
   = Inr [4 \<mapsto> \<lparr>scrollPosition = \<lparr>v_x = 0, v_y = - 300\<rparr>,
            scrollContainerDimensions = \<lparr>dim_width = 300, dim_height = 200\<rparr>,
            contentDimensions = \<lparr>dim_width = 300, dim_height = 500\<rparr>\<rparr>]
   \<and> ScrollContainerByY hash_keep_name
     [4 \<mapsto> \<lparr>scrollPosition = \<lparr>v_x = 0, v_y = - 300\<rparr>,
            scrollContainerDimensions = \<lparr>dim_width = 300, dim_height = 200\<rparr>,
            contentDimensions = \<lparr>dim_width = 300, dim_height = 500\<rparr>\<rparr>] ''list'' (- 1000)
   = Inr [4 \<mapsto> \<lparr>scrollPosition = \<lparr>v_x = 0, v_y = - 300\<rparr>,
            scrollContainerDimensions = \<lparr>dim_width = 300, dim_height = 200\<rparr>,
            contentDimensions = \<lparr>dim_width = 300, dim_height = 500\<rparr>\<rparr>]
   \<and> eid_id (hash_keep_name ''list'' 0 0) = 4"
proof -
  let ?sc = "\<lambda>y. \<lparr>scrollPosition = \<lparr>v_x = 0, v_y = y\<rparr>,
            scrollContainerDimensions = \<lparr>dim_width = 300, dim_height = 200\<rparr>,
            contentDimensions = \<lparr>dim_width = 300, dim_height = 500\<rparr>\<rparr>"
  have key: "eid_id (hash_keep_name ''list'' 0 0) = 4"
    by (simp add: hash_keep_name_def)
  have found: "[4 \<mapsto> ?sc y] (eid_id (hash_keep_name ''list'' 0 0)) = Some (?sc y)" for y
    by (simp add: key)
  from ScrollContainerByY_clamp [where hsh = hash_keep_name and containerName = "''list''"
         and containers = "[4 \<mapsto> ?sc 0]" and sc = "?sc 0" and deltaY = "- 1000", OF found]
       ScrollContainerByY_clamp [where hsh = hash_keep_name and containerName = "''list''"
         and containers = "[4 \<mapsto> ?sc (- 300)]" and sc = "?sc (- 300)" and deltaY = "- 1000",
         OF found]
       key
  show ?thesis by simp
qed

section \<open>Properties of the render command interpreter\<close>

subsection \<open>The loop\<close>

lemma Render_loop_append:
  "Render_loop fonts G arr (xs @ ys) =
     (case Render_loop fonts G arr xs of
        (calls, None) \<Rightarrow>
          (case Render_loop fonts G arr ys of (calls', out) \<Rightarrow> (calls @ calls', out))
      | (calls, Some stop) \<Rightarrow> (calls, Some stop))"
  by (induction xs) (auto split: prod.splits option.splits)

lemma render_command_unhandled:
  "\<not> handled (cmd_commandType c) \<Longrightarrow> render_command fonts G arr c = ([], Some (Exited 1))"
  by (cases "cmd_commandType c") (simp_all add: handled_def render_command_def)

subsection \<open>Unhandled command types\<close>

text \<open>
  Claim C9. Let the array hold a command whose type is not one of Text, Image,
  Rectangle, Border, ScissorStart, ScissorEnd, Custom. If the commands before it run
  to their end, the interpreter makes exactly their calls and then the process exits
  with status 1: the command is not skipped and no command after it is processed. If
  the run stops before that command, it stops as it would without it. In no case does
  the interpreter return.
\<close>

theorem unhandled_command_exits:
  assumes "\<not> handled (cmd_commandType c)"
  shows "Clay_Raylib_Render fonts G (pre @ c # post) =
           (case Render_loop fonts G (pre @ c # post) pre of
              (calls, None) \<Rightarrow> (calls, Some (Exited 1))
            | (calls, Some stop) \<Rightarrow> (calls, Some stop))
       \<and> snd (Clay_Raylib_Render fonts G (pre @ c # post)) \<noteq> None"
  using assms
  by (auto simp: Clay_Raylib_Render_def Render_loop_append render_command_unhandled
      split: prod.splits option.splits)

text \<open>A command of type NONE between two ScissorEnd commands.\<close>

theorem unhandled_command_exits_witness:
  "\<not> handled (cmd_commandType zeroRenderCommand)
   \<and> Clay_Raylib_Render [] ray_at_origin
       [zeroRenderCommand\<lparr>cmd_commandType := CLAY_RENDER_COMMAND_TYPE_SCISSOR_END\<rparr>,
        zeroRenderCommand,
        zeroRenderCommand\<lparr>cmd_commandType := CLAY_RENDER_COMMAND_TYPE_SCISSOR_END\<rparr>]
      = ([EndScissorMode], Some (Exited 1))"
proof -
  have unhandled: "\<not> handled (cmd_commandType zeroRenderCommand)"
    by (simp add: handled_def zeroRenderCommand_def)
  from unhandled_command_exits [OF unhandled, of "[]" ray_at_origin
         "[zeroRenderCommand\<lparr>cmd_commandType := CLAY_RENDER_COMMAND_TYPE_SCISSOR_END\<rparr>]"
         "[zeroRenderCommand\<lparr>cmd_commandType := CLAY_RENDER_COMMAND_TYPE_SCISSOR_END\<rparr>]"]
    unhandled
  show ?thesis by (simp add: render_command_def)
qed

subsection \<open>Custom commands without a model\<close>

text \<open>
  Claim C10. A Custom command whose payload pointer is null, or whose payload has a
  type other than the 3D model, makes no call and does not stop the run: the
  interpreter does on the array what it does on the commands around that command.
\<close>

theorem custom_without_model_skipped:
  assumes "cmd_commandType c = CLAY_RENDER_COMMAND_TYPE_CUSTOM"
    and "\<forall>e. cust_customData (rd_custom (cmd_renderData c)) = Some e
           \<longrightarrow> cle_type e \<noteq> CUSTOM_LAYOUT_ELEMENT_TYPE_3D_MODEL"
  shows "render_command fonts G arr c = ([], None)
       \<and> Render_loop fonts G arr (pre @ c # post) = Render_loop fonts G arr (pre @ post)
       \<and> Clay_Raylib_Render fonts G (pre @ c # post)
           = Render_loop fonts G (pre @ c # post) (pre @ post)"
proof -
  have step: "render_command fonts G arr c = ([], None)" for arr
    using assms
    by (auto simp: render_command_def render_custom_def Let_def
        split: option.splits CustomLayoutElementType.splits)
  have tail: "Render_loop fonts G arr (c # post) = Render_loop fonts G arr post" for arr
    by (simp add: step split: prod.splits)
  have skip: "Render_loop fonts G arr (pre @ c # post) = Render_loop fonts G arr (pre @ post)"
    for arr
    by (simp only: Render_loop_append tail)
  show ?thesis
    by (simp only: Clay_Raylib_Render_def step skip)
qed


text \<open>A Custom command with a null payload, followed by a ScissorEnd command.\<close>

theorem custom_without_model_skipped_witness:
  "cmd_commandType (zeroRenderCommand\<lparr>cmd_commandType := CLAY_RENDER_COMMAND_TYPE_CUSTOM\<rparr>)
     = CLAY_RENDER_COMMAND_TYPE_CUSTOM
   \<and> cust_customData (rd_custom (cmd_renderData
        (zeroRenderCommand\<lparr>cmd_commandType := CLAY_RENDER_COMMAND_TYPE_CUSTOM\<rparr>))) = None
   \<and> Clay_Raylib_Render [] ray_at_origin
       [zeroRenderCommand\<lparr>cmd_commandType := CLAY_RENDER_COMMAND_TYPE_CUSTOM\<rparr>,
        zeroRenderCommand\<lparr>cmd_commandType := CLAY_RENDER_COMMAND_TYPE_SCISSOR_END\<rparr>]
      = ([EndScissorMode], None)"
proof -
  let ?c = "zeroRenderCommand\<lparr>cmd_commandType := CLAY_RENDER_COMMAND_TYPE_CUSTOM\<rparr>"
  have tag: "cmd_commandType ?c = CLAY_RENDER_COMMAND_TYPE_CUSTOM" by simp
  have null: "cust_customData (rd_custom (cmd_renderData ?c)) = None"
    by (simp add: zeroRenderCommand_def zeroRenderData_def)
  then have cond: "\<forall>e. cust_customData (rd_custom (cmd_renderData ?c)) = Some e
           \<longrightarrow> cle_type e \<noteq> CUSTOM_LAYOUT_ELEMENT_TYPE_3D_MODEL" by simp
  from custom_without_model_skipped [OF tag cond, of "[]" ray_at_origin _ "[]"
         "[zeroRenderCommand\<lparr>cmd_commandType := CLAY_RENDER_COMMAND_TYPE_SCISSOR_END\<rparr>]"]
    tag null
  show ?thesis by (simp add: render_command_def)
qed

subsection \<open>Conversions and the min and max macros\<close>

lemma c_trunc_of_int: "v \<in> \<int> \<Longrightarrow> real_of_int (c_trunc v) = v"
  by (auto simp: c_trunc_def elim: Ints_cases)

lemma CLAY__MIN_min: "CLAY__MIN u v = min u v"
  by (simp add: CLAY__MIN_def min_def)

lemma CLAY__MAX_max: "CLAY__MAX u v = max u v"
  by (simp add: CLAY__MAX_def max_def)

lemma black_color:
  "CLAY_COLOR_TO_RAYLIB_COLOR \<lparr>color_r = 0, color_g = 0, color_b = 0, color_a = 255\<rparr>
     = \<lparr>col_r = 0, col_g = 0, col_b = 0, col_a = 255\<rparr>"
  by (simp add: CLAY_COLOR_TO_RAYLIB_COLOR_def roundf_def)

subsection \<open>Rectangles\<close>

text \<open>
  Claim C4, as amended. For a Rectangle command: if the top-left corner radius is
  positive (and no side of the box is zero), the interpreter makes one
  rounded-rectangle call, with the bounding box, the roundness \<open>topLeft * 2 /
  min width height\<close>, 8 segments and the background colour; if the radius is zero it
  makes one sharp-rectangle call with the background colour, whose four \<^verbatim>\<open>int\<close>
  arguments are the components of the bounding box with their fractions dropped.
  These are the bounding box exactly when its components are whole numbers.
\<close>

theorem rectangle_draw:
  fixes c :: Clay_RenderCommand
  defines "bb \<equiv> cmd_boundingBox c"
    and "config \<equiv> rd_rectangle (cmd_renderData c)"
  assumes "cmd_commandType c = CLAY_RENDER_COMMAND_TYPE_RECTANGLE"
  shows "(0 < topLeft (rect_cornerRadius config) \<and> bb_width bb \<noteq> 0 \<and> bb_height bb \<noteq> 0 \<longrightarrow>
            render_command fonts G arr c =
              ([DrawRectangleRounded
                  \<lparr>rec_x = bb_x bb, rec_y = bb_y bb, rec_width = bb_width bb,
                   rec_height = bb_height bb\<rparr>
                  (topLeft (rect_cornerRadius config) * 2 / min (bb_width bb) (bb_height bb)) 8
                  (CLAY_COLOR_TO_RAYLIB_COLOR (rect_backgroundColor config))], None))
       \<and> (topLeft (rect_cornerRadius config) = 0 \<longrightarrow>
            render_command fonts G arr c =
              ([DrawRectangle (c_trunc (bb_x bb)) (c_trunc (bb_y bb)) (c_trunc (bb_width bb))
                  (c_trunc (bb_height bb))
                  (CLAY_COLOR_TO_RAYLIB_COLOR (rect_backgroundColor config))], None))
       \<and> (bb_x bb \<in> \<int> \<and> bb_y bb \<in> \<int> \<and> bb_width bb \<in> \<int> \<and> bb_height bb \<in> \<int> \<longrightarrow>
            real_of_int (c_trunc (bb_x bb)) = bb_x bb \<and> real_of_int (c_trunc (bb_y bb)) = bb_y bb
            \<and> real_of_int (c_trunc (bb_width bb)) = bb_width bb
            \<and> real_of_int (c_trunc (bb_height bb)) = bb_height bb)"
  using assms
  by (auto simp: render_command_def render_rectangle_def Let_def c_trunc_of_int min_def)

text \<open>
  The box (0, 0, 100, 50): with radius 10 a rounded rectangle of roundness
  \<open>20 / 50 = 0.4\<close>, with radius 0 the sharp rectangle (0, 0, 100, 50).
\<close>

theorem rectangle_draw_witness:
  "cmd_commandType (rectangle_command \<lparr>bb_x = 0, bb_y = 0, bb_width = 100, bb_height = 50\<rparr>
      (CLAY_CORNER_RADIUS 10) \<lparr>color_r = 0, color_g = 0, color_b = 0, color_a = 255\<rparr>)
     = CLAY_RENDER_COMMAND_TYPE_RECTANGLE
   \<and> render_command [] ray_at_origin []
       (rectangle_command \<lparr>bb_x = 0, bb_y = 0, bb_width = 100, bb_height = 50\<rparr>
          (CLAY_CORNER_RADIUS 10) \<lparr>color_r = 0, color_g = 0, color_b = 0, color_a = 255\<rparr>)
     = ([DrawRectangleRounded \<lparr>rec_x = 0, rec_y = 0, rec_width = 100, rec_height = 50\<rparr>
           (2 / 5) 8 \<lparr>col_r = 0, col_g = 0, col_b = 0, col_a = 255\<rparr>], None)
   \<and> render_command [] ray_at_origin []
       (rectangle_command \<lparr>bb_x = 0, bb_y = 0, bb_width = 100, bb_height = 50\<rparr>
          (CLAY_CORNER_RADIUS 0) \<lparr>color_r = 0, color_g = 0, color_b = 0, color_a = 255\<rparr>)
     = ([DrawRectangle 0 0 100 50 \<lparr>col_r = 0, col_g = 0, col_b = 0, col_a = 255\<rparr>], None)"
proof -
  let ?box = "\<lparr>bb_x = 0, bb_y = 0, bb_width = 100, bb_height = 50\<rparr>"
  let ?black = "\<lparr>color_r = 0, color_g = 0, color_b = 0, color_a = 255\<rparr>"
  have tag: "cmd_commandType (rectangle_command ?box r ?black)
      = CLAY_RENDER_COMMAND_TYPE_RECTANGLE" for r
    by (simp add: rectangle_command_def)
  from rectangle_draw [OF tag [of "CLAY_CORNER_RADIUS 10"], of "[]" ray_at_origin "[]"]
       rectangle_draw [OF tag [of "CLAY_CORNER_RADIUS 0"], of "[]" ray_at_origin "[]"]
       tag [of "CLAY_CORNER_RADIUS 10"]
  show ?thesis
    by (simp add: rectangle_command_def CLAY_CORNER_RADIUS_def black_color c_trunc_def)
qed

text \<open>
  The claim as it was stated (the sharp call has exactly the bounding box) fails on
  the box (0.5, 0, 100, 50): the call starts at \<open>x = 0\<close>.
\<close>

theorem rectangle_draw_counterexample:
  "render_command [] ray_at_origin []
       (rectangle_command \<lparr>bb_x = 1 / 2, bb_y = 0, bb_width = 100, bb_height = 50\<rparr>
          (CLAY_CORNER_RADIUS 0) \<lparr>color_r = 0, color_g = 0, color_b = 0, color_a = 255\<rparr>)
     = ([DrawRectangle 0 0 100 50 \<lparr>col_r = 0, col_g = 0, col_b = 0, col_a = 255\<rparr>], None)
   \<and> topLeft (rect_cornerRadius (rd_rectangle (cmd_renderData
       (rectangle_command \<lparr>bb_x = 1 / 2, bb_y = 0, bb_width = 100, bb_height = 50\<rparr>
          (CLAY_CORNER_RADIUS 0) \<lparr>color_r = 0, color_g = 0, color_b = 0, color_a = 255\<rparr>)))) = 0
   \<and> real_of_int 0 \<noteq> bb_x (cmd_boundingBox
       (rectangle_command \<lparr>bb_x = 1 / 2, bb_y = 0, bb_width = 100, bb_height = 50\<rparr>
          (CLAY_CORNER_RADIUS 0) \<lparr>color_r = 0, color_g = 0, color_b = 0, color_a = 255\<rparr>))"
  by (simp add: render_command_def render_rectangle_def rectangle_command_def
      CLAY_CORNER_RADIUS_def black_color c_trunc_def)

subsection \<open>The 3D model\<close>

text \<open>
  Claim C5, as amended. For a Custom command of the array that carries the 3D model,
  the interpreter draws the model, between \<^verbatim>\<open>BeginMode3D\<close> and \<^verbatim>\<open>EndMode3D\<close>, at the
  scale \<open>scale * min (min 1 (768 / referenceHeight) * max 1 (referenceWidth / 1024))
  1.5\<close>, where \<open>scale\<close> is the payload's and the reference box is the bounding box of the
  first command of the array (its height not zero).
\<close>

theorem model_scale:
  assumes "cmd_commandType c = CLAY_RENDER_COMMAND_TYPE_CUSTOM"
    and "cust_customData (rd_custom (cmd_renderData c)) = Some e"
    and "cle_type e = CUSTOM_LAYOUT_ELEMENT_TYPE_3D_MODEL"
    and "c \<in> set arr"
    and "bb_height (cmd_boundingBox (arr ! 0)) \<noteq> 0"
  shows "render_command fonts G arr c =
           ([BeginMode3D,
             DrawModel (m3d_model (cle_model e))
               (ray_position (G \<lparr>vec_x = bb_x (cmd_boundingBox c) + bb_width (cmd_boundingBox c) / 2,
                                 vec_y = bb_y (cmd_boundingBox c)
                                         + bb_height (cmd_boundingBox c) / 2 + 20\<rparr>
                                (roundf (bb_width (cmd_boundingBox (arr ! 0))))
                                (roundf (bb_height (cmd_boundingBox (arr ! 0)))) 140))
               (m3d_scale (cle_model e)
                * min (min 1 (768 / bb_height (cmd_boundingBox (arr ! 0)))
                       * max 1 (bb_width (cmd_boundingBox (arr ! 0)) / 1024)) (3 / 2))
               WHITE,
             EndMode3D], None)"
  using assms
  by (simp add: render_command_def render_custom_def Let_def scaleValue_def
      boundingBox_of_first_def CLAY__MIN_min CLAY__MAX_max)

text \<open>
  A reference box 1024 wide and 1536 high: the factor is \<open>768 / 1536 = 0.5\<close>, and a model
  of scale 2 is drawn at scale 1.
\<close>

theorem model_scale_witness:
  "render_command [] ray_at_origin
     [rectangle_command \<lparr>bb_x = 0, bb_y = 0, bb_width = 1024, bb_height = 1536\<rparr>
        (CLAY_CORNER_RADIUS 0) NONE,
      custom_command \<lparr>bb_x = 100, bb_y = 100, bb_width = 200, bb_height = 200\<rparr>
        (Some \<lparr>cle_type = CUSTOM_LAYOUT_ELEMENT_TYPE_3D_MODEL,
               cle_model = \<lparr>m3d_model = 7, m3d_scale = 2, m3d_position = (0, 0, 0),
                             m3d_rotation = []\<rparr>\<rparr>)]
     (custom_command \<lparr>bb_x = 100, bb_y = 100, bb_width = 200, bb_height = 200\<rparr>
        (Some \<lparr>cle_type = CUSTOM_LAYOUT_ELEMENT_TYPE_3D_MODEL,
               cle_model = \<lparr>m3d_model = 7, m3d_scale = 2, m3d_position = (0, 0, 0),
                             m3d_rotation = []\<rparr>\<rparr>))
   = ([BeginMode3D, DrawModel 7 (0, 0, 0) 1 WHITE, EndMode3D], None)"
proof -
  let ?e = "\<lparr>cle_type = CUSTOM_LAYOUT_ELEMENT_TYPE_3D_MODEL,
             cle_model = \<lparr>m3d_model = 7, m3d_scale = 2, m3d_position = (0, 0, 0),
                           m3d_rotation = []\<rparr>\<rparr>"
  let ?c = "custom_command \<lparr>bb_x = 100, bb_y = 100, bb_width = 200, bb_height = 200\<rparr> (Some ?e)"
  let ?root = "rectangle_command \<lparr>bb_x = 0, bb_y = 0, bb_width = 1024, bb_height = 1536\<rparr>
        (CLAY_CORNER_RADIUS 0) NONE"
  have tag: "cmd_commandType ?c = CLAY_RENDER_COMMAND_TYPE_CUSTOM"
    and payload: "cust_customData (rd_custom (cmd_renderData ?c)) = Some ?e"
    and kind: "cle_type ?e = CUSTOM_LAYOUT_ELEMENT_TYPE_3D_MODEL"
    and member: "?c \<in> set [?root, ?c]"
    and height: "bb_height (cmd_boundingBox ([?root, ?c] ! 0)) \<noteq> 0"
    by (simp_all add: custom_command_def rectangle_command_def)
  from model_scale [OF tag payload kind member height, of "[]" ray_at_origin]
  show ?thesis
    by (simp add: rectangle_command_def custom_command_def ray_at_origin_def)
qed

text \<open>
  The claim as it was stated has \<open>referenceHeight / 768\<close>. On a reference box 1024 wide
  and 384 high that formula gives 0.5 for a model of scale 1; the model is drawn at
  scale 1.
\<close>

theorem model_scale_counterexample:
  "render_command [] ray_at_origin
     [custom_command \<lparr>bb_x = 0, bb_y = 0, bb_width = 1024, bb_height = 384\<rparr>
        (Some \<lparr>cle_type = CUSTOM_LAYOUT_ELEMENT_TYPE_3D_MODEL,
               cle_model = \<lparr>m3d_model = 7, m3d_scale = 1, m3d_position = (0, 0, 0),
                             m3d_rotation = []\<rparr>\<rparr>)]
     (custom_command \<lparr>bb_x = 0, bb_y = 0, bb_width = 1024, bb_height = 384\<rparr>
        (Some \<lparr>cle_type = CUSTOM_LAYOUT_ELEMENT_TYPE_3D_MODEL,
               cle_model = \<lparr>m3d_model = 7, m3d_scale = 1, m3d_position = (0, 0, 0),
                             m3d_rotation = []\<rparr>\<rparr>))
   = ([BeginMode3D, DrawModel 7 (0, 0, 0) 1 WHITE, EndMode3D], None)
   \<and> (1 :: real) * min (min 1 (384 / 768) * max 1 (1024 / 1024)) (3 / 2) \<noteq> 1"
  by (simp add: render_command_def render_custom_def custom_command_def zeroRenderData_def
      scaleValue_def boundingBox_of_first_def CLAY__MIN_def CLAY__MAX_def ray_at_origin_def)

subsection \<open>Border corners\<close>

text \<open>
  Claim C6, as amended. For a Border command and each corner whose radius is
  positive, the interpreter draws a ring in the border colour, 10 segments, centred
  one radius inside the corner, with that radius as outer radius, over the sector
  180 to 270 (top-left), 270 to 360 (top-right), 90 to 180 (bottom-left) and 0.1 to 90
  (bottom-right). The inner radius of the top-left and top-right rings is the radius
  less the width of the top edge, and that of the bottom-right ring the radius less
  the width of the bottom edge, each rounded to the nearest whole number. (Nothing is
  said of the inner radius of the bottom-left ring.)
\<close>

theorem border_corner_rings:
  fixes c :: Clay_RenderCommand
  defines "bb \<equiv> cmd_boundingBox c"
    and "cr \<equiv> brd_cornerRadius (rd_border (cmd_renderData c))"
    and "bw \<equiv> brd_width (rd_border (cmd_renderData c))"
    and "color \<equiv> CLAY_COLOR_TO_RAYLIB_COLOR (brd_color (rd_border (cmd_renderData c)))"
  assumes "cmd_commandType c = CLAY_RENDER_COMMAND_TYPE_BORDER"
  shows "(0 < topLeft cr \<longrightarrow>
            DrawRing \<lparr>vec_x = real_of_int (roundf (bb_x bb + topLeft cr)),
                      vec_y = real_of_int (roundf (bb_y bb + topLeft cr))\<rparr>
              (real_of_int (roundf (topLeft cr - real (unat (bw_top bw))))) (topLeft cr)
              180 270 10 color
            \<in> set (fst (render_command fonts G arr c)))
       \<and> (0 < topRight cr \<longrightarrow>
            DrawRing \<lparr>vec_x = real_of_int (roundf (bb_x bb + bb_width bb - topRight cr)),
                      vec_y = real_of_int (roundf (bb_y bb + topRight cr))\<rparr>
              (real_of_int (roundf (topRight cr - real (unat (bw_top bw))))) (topRight cr)
              270 360 10 color
            \<in> set (fst (render_command fonts G arr c)))
       \<and> (0 < bottomLeft cr \<longrightarrow>
            (\<exists>innerRadius.
              DrawRing \<lparr>vec_x = real_of_int (roundf (bb_x bb + bottomLeft cr)),
                        vec_y = real_of_int (roundf (bb_y bb + bb_height bb - bottomLeft cr))\<rparr>
                innerRadius (bottomLeft cr) 90 180 10 color
              \<in> set (fst (render_command fonts G arr c))))
       \<and> (0 < bottomRight cr \<longrightarrow>
            DrawRing \<lparr>vec_x = real_of_int (roundf (bb_x bb + bb_width bb - bottomRight cr)),
                      vec_y = real_of_int (roundf (bb_y bb + bb_height bb - bottomRight cr))\<rparr>
              (real_of_int (roundf (bottomRight cr - real (unat (bw_bottom bw)))))
              (bottomRight cr) (1 / 10) 90 10 color
            \<in> set (fst (render_command fonts G arr c)))"
  using assms
  by (auto simp: render_command_def render_border_def Let_def)

text \<open>A box (0, 0, 100, 50) with every radius 10 and every edge 2 wide.\<close>

theorem border_corner_rings_witness:
  "cmd_commandType (border_command \<lparr>bb_x = 0, bb_y = 0, bb_width = 100, bb_height = 50\<rparr>
       (CLAY_CORNER_RADIUS 10)
       \<lparr>bw_left = 2, bw_right = 2, bw_top = 2, bw_bottom = 2, bw_betweenChildren = 0\<rparr>
       \<lparr>color_r = 0, color_g = 0, color_b = 0, color_a = 255\<rparr>)
     = CLAY_RENDER_COMMAND_TYPE_BORDER
   \<and> DrawRing \<lparr>vec_x = 10, vec_y = 10\<rparr> 8 10 180 270 10
        \<lparr>col_r = 0, col_g = 0, col_b = 0, col_a = 255\<rparr>
     \<in> set (fst (render_command [] ray_at_origin []
         (border_command \<lparr>bb_x = 0, bb_y = 0, bb_width = 100, bb_height = 50\<rparr>
           (CLAY_CORNER_RADIUS 10)
           \<lparr>bw_left = 2, bw_right = 2, bw_top = 2, bw_bottom = 2, bw_betweenChildren = 0\<rparr>
           \<lparr>color_r = 0, color_g = 0, color_b = 0, color_a = 255\<rparr>)))
   \<and> DrawRing \<lparr>vec_x = 90, vec_y = 40\<rparr> 8 10 (1 / 10) 90 10
        \<lparr>col_r = 0, col_g = 0, col_b = 0, col_a = 255\<rparr>
     \<in> set (fst (render_command [] ray_at_origin []
         (border_command \<lparr>bb_x = 0, bb_y = 0, bb_width = 100, bb_height = 50\<rparr>
           (CLAY_CORNER_RADIUS 10)
           \<lparr>bw_left = 2, bw_right = 2, bw_top = 2, bw_bottom = 2, bw_betweenChildren = 0\<rparr>
           \<lparr>color_r = 0, color_g = 0, color_b = 0, color_a = 255\<rparr>)))"
proof -
  let ?c = "border_command \<lparr>bb_x = 0, bb_y = 0, bb_width = 100, bb_height = 50\<rparr>
       (CLAY_CORNER_RADIUS 10)
       \<lparr>bw_left = 2, bw_right = 2, bw_top = 2, bw_bottom = 2, bw_betweenChildren = 0\<rparr>
       \<lparr>color_r = 0, color_g = 0, color_b = 0, color_a = 255\<rparr>"
  have tag: "cmd_commandType ?c = CLAY_RENDER_COMMAND_TYPE_BORDER"
    by (simp add: border_command_def)
  have fields: "cmd_boundingBox ?c = \<lparr>bb_x = 0, bb_y = 0, bb_width = 100, bb_height = 50\<rparr>"
    "brd_cornerRadius (rd_border (cmd_renderData ?c)) = CLAY_CORNER_RADIUS 10"
    "brd_width (rd_border (cmd_renderData ?c))
       = \<lparr>bw_left = 2, bw_right = 2, bw_top = 2, bw_bottom = 2, bw_betweenChildren = 0\<rparr>"
    "brd_color (rd_border (cmd_renderData ?c))
       = \<lparr>color_r = 0, color_g = 0, color_b = 0, color_a = 255\<rparr>"
    by (simp_all add: border_command_def)
  from border_corner_rings [OF tag, of "[]" ray_at_origin "[]"] tag
  show ?thesis
    unfolding fields
    by (simp add: CLAY_CORNER_RADIUS_def black_color roundf_def)
qed

text \<open>
  The claim as it was stated has the bottom-right sector start at 0 degrees. On the
  same command no such ring is drawn.
\<close>

theorem border_corner_rings_counterexample:
  "0 < bottomRight (brd_cornerRadius (rd_border (cmd_renderData
         (border_command \<lparr>bb_x = 0, bb_y = 0, bb_width = 100, bb_height = 50\<rparr>
           (CLAY_CORNER_RADIUS 10)
           \<lparr>bw_left = 2, bw_right = 2, bw_top = 2, bw_bottom = 2, bw_betweenChildren = 0\<rparr>
           \<lparr>color_r = 0, color_g = 0, color_b = 0, color_a = 255\<rparr>))))
   \<and> DrawRing \<lparr>vec_x = 90, vec_y = 40\<rparr> 8 10 0 90 10
        \<lparr>col_r = 0, col_g = 0, col_b = 0, col_a = 255\<rparr>
     \<notin> set (fst (render_command [] ray_at_origin []
         (border_command \<lparr>bb_x = 0, bb_y = 0, bb_width = 100, bb_height = 50\<rparr>
           (CLAY_CORNER_RADIUS 10)
           \<lparr>bw_left = 2, bw_right = 2, bw_top = 2, bw_bottom = 2, bw_betweenChildren = 0\<rparr>
           \<lparr>color_r = 0, color_g = 0, color_b = 0, color_a = 255\<rparr>)))"
  by (simp add: render_command_def render_border_def border_command_def Let_def
      CLAY_CORNER_RADIUS_def black_color roundf_def)

text \<open>
  The inner radius of the bottom-left ring: the code subtracts the width of the top
  edge, which does not meet that corner.
\<close>

lemma bottomLeft_ring_inner_radius:
  fixes c :: Clay_RenderCommand
  defines "bb \<equiv> cmd_boundingBox c"
    and "cr \<equiv> brd_cornerRadius (rd_border (cmd_renderData c))"
    and "bw \<equiv> brd_width (rd_border (cmd_renderData c))"
    and "color \<equiv> CLAY_COLOR_TO_RAYLIB_COLOR (brd_color (rd_border (cmd_renderData c)))"
  assumes "cmd_commandType c = CLAY_RENDER_COMMAND_TYPE_BORDER" and "0 < bottomLeft cr"
  shows "DrawRing \<lparr>vec_x = real_of_int (roundf (bb_x bb + bottomLeft cr)),
                  vec_y = real_of_int (roundf (bb_y bb + bb_height bb - bottomLeft cr))\<rparr>
           (real_of_int (roundf (bottomLeft cr - real (unat (bw_top bw))))) (bottomLeft cr)
           90 180 10 color
         \<in> set (fst (render_command fonts G arr c))"
  using assms
  by (auto simp: render_command_def render_border_def Let_def)

section \<open>Properties of the arena\<close>

subsection \<open>Alignment\<close>

lemma align_nat_aligned: "n mod 16 = 0 \<Longrightarrow> (n + 15) div 16 * 16 = (n::nat)"
proof -
  assume "n mod 16 = 0"
  then have "16 dvd n" by (simp add: dvd_eq_mod_eq_0)
  then obtain k where n: "n = 16 * k" by (elim dvdE)
  have "(16 * k + 15) div 16 = k" by simp
  then show ?thesis by (simp add: n)
qed

lemma align_nat_unaligned:
  assumes "0 < n mod 16"
  shows "(n + 15) div 16 * 16 = (n::nat) + (16 - n mod 16)"
proof -
  define k where "k = n div 16"
  define m where "m = n mod 16"
  have n: "n = 16 * k + m" by (simp add: k_def m_def)
  have m: "0 < m" "m < 16" using assms by (simp_all add: m_def)
  have "(16 * k + m + 15) div 16 = k + (m + 15) div 16"
    by (simp add: add.assoc)
  moreover have "(m + 15) div 16 = 1" using m by simp
  ultimately have "(n + 15) div 16 = k + 1" by (simp add: n)
  then have "(n + 15) div 16 * 16 = 16 * k + 16" by simp
  also have "\<dots> = n + (16 - m)" using m by (simp add: n)
  finally show ?thesis by (simp add: m_def)
qed

lemma and_15_mod: "unat ((x :: 64 word) AND 15) = unat x mod 16"
proof -
  have "x AND 15 = x AND mask 4" by (simp add: mask_eq_exp_minus_1)
  also have "\<dots> = take_bit 4 x" by (simp add: take_bit_eq_mask)
  finally have "unat (x AND 15) = unat (take_bit 4 x)" by simp
  also have "\<dots> = unat x mod 16" by (simp add: take_bit_eq_mod unat_mod)
  finally show ?thesis .
qed

text \<open>\<^verbatim>\<open>alignForward\<close> rounds an address up to the next multiple of 16.\<close>

lemma alignForward_unat:
  fixes x :: "64 word"
  assumes "unat x + 15 < 2 ^ 64"
  shows "unat (alignForward x) = (unat x + 15) div 16 * 16"
proof (cases "x AND 15 = 0")
  case True
  then have "unat x mod 16 = 0" using and_15_mod [of x] by simp
  then have "(unat x + 15) div 16 * 16 = unat x" by (rule align_nat_aligned)
  with True show ?thesis by (simp add: alignForward_def DEFAULT_ALIGNMENT_def)
next
  case False
  let ?m = "unat x mod 16"
  have m: "unat (x AND 15) = ?m" by (rule and_15_mod)
  have "unat (x AND 15) \<noteq> 0" using False by (simp add: unat_eq_0)
  then have mpos: "0 < ?m" using m by simp
  have mlt: "?m < 16" by simp
  have le: "x AND 15 \<le> 16" using m mlt by (simp add: word_le_nat_alt)
  have sub: "unat (16 - (x AND 15)) = 16 - ?m"
    using le m by (simp add: unat_sub)
  have "unat x + (16 - ?m) \<le> unat x + 15"
    using mpos by simp
  then have "unat x + (16 - ?m) < 2 ^ 64"
    using assms by (rule le_less_trans)
  then have "unat x + unat (16 - (x AND 15)) < 2 ^ LENGTH(64)"
    using sub by simp
  then have "unat (x + (16 - (x AND 15))) = unat x + unat (16 - (x AND 15))"
    by (rule unat_add_lem [THEN iffD1])
  then have "unat (x + (16 - (x AND 15))) = unat x + (16 - ?m)"
    using sub by simp
  moreover have "(unat x + 15) div 16 * 16 = unat x + (16 - ?m)"
    using mpos by (rule align_nat_unaligned)
  ultimately show ?thesis
    using False by (simp add: alignForward_def DEFAULT_ALIGNMENT_def)
qed

lemma alignForward_bounds:
  fixes x :: "64 word"
  assumes "unat x + 15 < 2 ^ 64"
  shows "unat x \<le> unat (alignForward x)" and "unat (alignForward x) \<le> unat x + 15"
proof -
  have eq: "unat (alignForward x) = (unat x + 15) div 16 * 16"
    using assms by (rule alignForward_unat)
  show "unat x \<le> unat (alignForward x)"
  proof (cases "unat x mod 16 = 0")
    case True
    then show ?thesis using eq align_nat_aligned [of "unat x"] by simp
  next
    case False
    then show ?thesis using eq align_nat_unaligned [of "unat x"] by simp
  qed
  have "(unat x + 15) div 16 * 16 \<le> unat x + 15"
    by (rule div_times_less_eq_dividend)
  then show "unat (alignForward x) \<le> unat x + 15" using eq by simp
qed

subsection \<open>Allocations that return\<close>

text \<open>
  An allocation that returns leaves the arena well formed, starts at or after the
  old offset and ends at the new one, inside the block.
\<close>

lemma ArenaAlloc_step:
  assumes wf: "arena_wf a" and run: "ArenaAlloc a n = Inr (ptr, a')"
  shows "arena_wf a'"
    and "buffer a' = buffer a"
    and "bufferLength a' = bufferLength a"
    and "unat (buffer a) + unat (currOffset a) \<le> unat ptr"
    and "unat ptr + unat n = unat (buffer a') + unat (currOffset a')"
proof -
  define x where "x = buffer a + currOffset a"
  define al where "al = alignForward x"
  define offset where "offset = al - buffer a"
  have cap: "unat (buffer a) + unat (bufferLength a) + 15 < 2 ^ 64"
    and cur: "unat (currOffset a) \<le> unat (bufferLength a)"
    using wf by (simp_all add: arena_wf_def)
  have "unat (buffer a) + unat (currOffset a) < 2 ^ LENGTH(64)"
    using cap cur by simp
  then have x: "unat x = unat (buffer a) + unat (currOffset a)"
    unfolding x_def by (rule unat_add_lem [THEN iffD1])
  have x15: "unat x + 15 < 2 ^ 64" using x cap cur by simp
  have al_lo: "unat x \<le> unat al" and al_hi: "unat al \<le> unat x + 15"
    unfolding al_def using x15 by (rule alignForward_bounds)+
  have "buffer a \<le> al" using x al_lo by (simp add: word_le_nat_alt)
  then have off: "unat offset = unat al - unat (buffer a)"
    unfolding offset_def by (rule unat_sub)
  from run have fits: "unat offset + unat n \<le> unat (bufferLength a)"
    and ptr: "ptr = buffer a + offset"
    and a': "a' = a\<lparr>prevOffset := offset, currOffset := offset + n\<rparr>"
    by (auto simp: ArenaAlloc_def Let_def offset_def al_def x_def split: if_splits)
  have "unat (buffer a) + unat offset < 2 ^ LENGTH(64)"
    using fits cap by simp
  then have uptr: "unat ptr = unat (buffer a) + unat offset"
    unfolding ptr by (rule unat_add_lem [THEN iffD1])
  have "unat offset + unat n < 2 ^ LENGTH(64)"
    using fits cap by simp
  then have ucur: "unat (offset + n) = unat offset + unat n"
    by (rule unat_add_lem [THEN iffD1])
  show "buffer a' = buffer a" and "bufferLength a' = bufferLength a"
    by (simp_all add: a')
  show "arena_wf a'"
    using cap fits ucur by (simp add: arena_wf_def a')
  show "unat (buffer a) + unat (currOffset a) \<le> unat ptr"
    using uptr off x al_lo by simp
  show "unat ptr + unat n = unat (buffer a') + unat (currOffset a')"
    using uptr ucur by (simp add: a')
qed

text \<open>
  Allocations in sequence that all return give regions in a row, so any two of them
  are apart: the earlier one ends before the later one starts.
\<close>

lemma ArenaAlloc_each_in_a_row:
  assumes "arena_wf a" and "ArenaAlloc_each a ns = Inr (regions, a')"
  shows "in_a_row (unat (buffer a) + unat (currOffset a)) regions
       \<and> arena_wf a' \<and> buffer a' = buffer a \<and> bufferLength a' = bufferLength a
       \<and> unat (currOffset a) \<le> unat (currOffset a')"
  using assms
proof (induction ns arbitrary: a regions a')
  case Nil
  then show ?case by simp
next
  case (Cons n ns)
  from Cons.prems(2) obtain ptr a1 rs where
    one: "ArenaAlloc a n = Inr (ptr, a1)" and
    rest: "ArenaAlloc_each a1 ns = Inr (rs, a')" and
    regions: "regions = (ptr, n) # rs"
    by (auto split: sum.splits prod.splits)
  note step = ArenaAlloc_step [OF Cons.prems(1) one]
  from Cons.IH [OF step(1) rest]
  have ih: "in_a_row (unat (buffer a1) + unat (currOffset a1)) rs"
    "arena_wf a'" "buffer a' = buffer a1" "bufferLength a' = bufferLength a1"
    "unat (currOffset a1) \<le> unat (currOffset a')"
    by simp_all
  have "unat (buffer a) + unat (currOffset a) \<le> unat (buffer a) + unat (currOffset a1)"
    using step(4) step(5) step(2) by simp
  then show ?case
    using ih step by (simp add: regions)
qed

lemma in_a_row_apart:
  assumes "in_a_row lo regions" and "i < j" and "j < length regions"
  shows "unat (fst (regions ! i)) + unat (snd (regions ! i)) \<le> unat (fst (regions ! j))"
  using assms
proof (induction lo regions arbitrary: i j rule: in_a_row.induct)
  case (1 lo)
  then show ?case by simp
next
  case (2 lo ptr n regions)
  have mono: "lo' \<le> unat (fst (rs ! k))" if "in_a_row lo' rs" "k < length rs" for lo' rs k
    using that
  proof (induction lo' rs arbitrary: k rule: in_a_row.induct)
    case (1 lo)
    then show ?case by simp
  next
    case (2 lo ptr n regions)
    show ?case
    proof (cases k)
      case 0
      then show ?thesis using "2.prems" by simp
    next
      case (Suc k')
      then have "unat ptr + unat n \<le> unat (fst (regions ! k'))"
        using "2.IH" [of k'] "2.prems" by simp
      then show ?thesis using "2.prems" Suc by simp
    qed
  qed
  obtain j' where j: "j = Suc j'" using "2.prems"(2) by (cases j) simp_all
  show ?case
  proof (cases i)
    case 0
    have "unat ptr + unat n \<le> unat (fst (regions ! j'))"
      using mono [of "unat ptr + unat n" regions j'] "2.prems" j by simp
    then show ?thesis using 0 j by simp
  next
    case (Suc i')
    then show ?thesis using "2.IH" [of i' j'] "2.prems" j by simp
  qed
qed

subsection \<open>Allocations beyond the capacity, and reset\<close>

text \<open>
  A request whose aligned offset plus size exceeds the capacity does not return. The
  assertion stops it when the sum is below \<open>2 ^ 64\<close>.
\<close>

lemma ArenaAlloc_beyond_capacity:
  assumes "unat (bufferLength a) < unat (alignForward (buffer a + currOffset a) - buffer a) + unat n"
  shows "ArenaAlloc a n = Inl (AssertionFailed ''Arena ran out of space left'')
       \<or> ArenaAlloc a n = Inl OutOfBounds"
  using assms by (simp add: ArenaAlloc_def Let_def)

lemma ArenaAlloc_asserts:
  assumes "unat (alignForward (buffer a + currOffset a) - buffer a) + unat n < 2 ^ 64"
    and "unat (bufferLength a) < unat (alignForward (buffer a + currOffset a) - buffer a) + unat n"
  shows "ArenaAlloc a n = Inl (AssertionFailed ''Arena ran out of space left'')"
proof -
  let ?offset = "alignForward (buffer a + currOffset a) - buffer a"
  have "unat ?offset + unat n < 2 ^ LENGTH(64)" using assms(1) by simp
  then have "unat (?offset + n) = unat ?offset + unat n"
    by (rule unat_add_lem [THEN iffD1])
  then have "\<not> ?offset + n \<le> bufferLength a"
    using assms(2) by (simp add: word_le_nat_alt)
  then show ?thesis by (simp add: ArenaAlloc_def Let_def)
qed

text \<open>
  After a reset the arena serves again the address that it served first.
\<close>

lemma ArenaAlloc_after_reset:
  assumes "ArenaAlloc (ArenaInit b len) n = Inr (ptr, a1)"
    and "buffer a = b" and "bufferLength a = len"
  shows "ArenaAlloc (ArenaReset a) n
           = Inr (ptr, a\<lparr>prevOffset := prevOffset a1, currOffset := currOffset a1\<rparr>)"
  using assms
  by (auto simp: ArenaAlloc_def ArenaInit_def ArenaReset_def Let_def split: if_splits)

subsection \<open>The sum that wraps\<close>

text \<open>
  Claim C7, at the input where the code departs from it. An arena of 64 bytes at
  address 4096 serves 16 bytes at offset 0. A second request, for \<open>2 ^ 64 - 16\<close> bytes,
  has its aligned offset 16 and \<open>16 + size\<close> far beyond the capacity; the sum wraps to
  0, the assertion holds, and \<^verbatim>\<open>memset\<close> is called on bytes outside the block.
\<close>

theorem ArenaAlloc_wraps:
  "ArenaAlloc (ArenaInit 4096 64) 16
     = Inr (4096, \<lparr>buffer = 4096, bufferLength = 64, prevOffset = 0, currOffset = 16\<rparr>)
   \<and> ArenaAlloc \<lparr>buffer = 4096, bufferLength = 64, prevOffset = 0, currOffset = 16\<rparr>
        0xFFFFFFFFFFFFFFF0 = Inl OutOfBounds
   \<and> unat (64 :: 64 word) < unat (16 :: 64 word) + unat (0xFFFFFFFFFFFFFFF0 :: 64 word)"
  by (simp add: ArenaAlloc_def ArenaInit_def alignForward_def DEFAULT_ALIGNMENT_def Let_def)

end
